theory Spec2Isabelle
  imports Main "HOL-Library.Char_ord" "HOL-Library.List_Lexorder" "HOL-Library.Product_Lexorder"
begin

section \<open>Python strings and the helpers of the standard library the code calls\<close>

text \<open>
  A Python \<open>str\<close> is a sequence of Unicode code points. It is modelled as a \<open>string\<close>
  whose character of number \<open>n\<close> is the code point \<open>U+n\<close>, so that the strings of
  the model are the strings over \<open>U+0000\<close> to \<open>U+00FF\<close>; the classes of characters
  below are those of Python on these code points. \<open>str.isspace\<close>, which \<open>strip\<close> and
  \<open>rstrip\<close> go by, is true of tab, line feed, vertical tab, form feed, carriage return,
  the four separators \<open>U+001C\<close> to \<open>U+001F\<close>, the blank, the next line \<open>U+0085\<close> and the
  no-break space \<open>U+00A0\<close>.
\<close>

definition py_isspace :: "char \<Rightarrow> bool" where
  "py_isspace c =
     (c \<in> set [CHR 0x09, CHR 0x0A, CHR 0x0B, CHR 0x0C, CHR 0x0D,
                CHR 0x1C, CHR 0x1D, CHR 0x1E, CHR 0x1F, CHR 0x20,
                CHR 0x85, CHR 0xA0])"

text \<open>\<open>s.lstrip(chars)\<close>, \<open>s.rstrip(chars)\<close> and \<open>s.strip(chars)\<close> for a set of characters.\<close>

definition lstrip_chars :: "(char \<Rightarrow> bool) \<Rightarrow> string \<Rightarrow> string" where
  "lstrip_chars p s = dropWhile p s"

definition rstrip_chars :: "(char \<Rightarrow> bool) \<Rightarrow> string \<Rightarrow> string" where
  "rstrip_chars p s = rev (dropWhile p (rev s))"

definition strip_chars :: "(char \<Rightarrow> bool) \<Rightarrow> string \<Rightarrow> string" where
  "strip_chars p s = rstrip_chars p (lstrip_chars p s)"

definition rstrip :: "string \<Rightarrow> string" where
  "rstrip s = rstrip_chars py_isspace s"

definition strip :: "string \<Rightarrow> string" where
  "strip s = strip_chars py_isspace s"

text \<open>\<open>str(n)\<close> for an integer: its decimal digits, with a minus sign when negative.\<close>

definition digit_char :: "nat \<Rightarrow> char" where
  "digit_char d = char_of (48 + d)"

function str_nat :: "nat \<Rightarrow> string" where
  "str_nat n = (if n < 10 then [digit_char n] else str_nat (n div 10) @ [digit_char (n mod 10)])"
  by pat_completeness auto
termination
  by (relation "measure (\<lambda>n. n)") auto

declare str_nat.simps [simp del]

definition str_int :: "int \<Rightarrow> string" where
  "str_int i = (if i < 0 then CHR ''-'' # str_nat (nat (- i)) else str_nat (nat i))"

text \<open>
  \<open>xs[:n]\<close>: the first \<open>n\<close> elements, and for a negative \<open>n\<close> all but the last \<open>-n\<close>.
  \<open>xs[a:b]\<close> is used by the code with non-negative bounds only.
\<close>

definition py_take :: "int \<Rightarrow> 'a list \<Rightarrow> 'a list" where
  "py_take n xs = (if n < 0 then take (nat (int (length xs) + n)) xs else take (nat n) xs)"

definition py_slice :: "int \<Rightarrow> int \<Rightarrow> 'a list \<Rightarrow> 'a list" where
  "py_slice a b xs = take (nat b - nat a) (drop (nat a) xs)"

text \<open>
  \<open>s.center(width, fill)\<close>: the string itself when it is at least \<open>width\<close> long;
  otherwise padded on both sides, the left margin being
  \<open>marg / 2 + (marg & width & 1)\<close> as in CPython.
\<close>

definition center :: "nat \<Rightarrow> char \<Rightarrow> string \<Rightarrow> string" where
  "center width fill s =
     (if width \<le> length s then s
      else let marg = width - length s;
               left = marg div 2 + (if odd marg \<and> odd width then 1 else 0)
           in replicate left fill @ s @ replicate (marg - left) fill)"

text \<open>\<open>sep.join(xs)\<close>.\<close>

fun join :: "string \<Rightarrow> string list \<Rightarrow> string" where
  "join sep [] = []"
| "join sep [x] = x"
| "join sep (x # y # ys) = x @ sep @ join sep (y # ys)"

text \<open>
  \<open>s.lower()\<close>: the capital letters are \<open>A\<close> to \<open>Z\<close> and \<open>U+00C0\<close> to \<open>U+00DE\<close> but for
  the multiplication sign \<open>U+00D7\<close>; the small letter is 32 code points further.
\<close>

definition lower_char :: "char \<Rightarrow> char" where
  "lower_char c =
     (if (CHR ''A'' \<le> c \<and> c \<le> CHR ''Z'')
         \<or> (CHR 0xC0 \<le> c \<and> c \<le> CHR 0xDE \<and> c \<noteq> CHR 0xD7)
      then char_of (of_char c + (32::nat)) else c)"

definition lower :: "string \<Rightarrow> string" where
  "lower s = map lower_char s"

text \<open>The escape sequences of colorama.\<close>

definition ESC :: char where "ESC = CHR 0x1B"
definition BRIGHT :: string where "BRIGHT = ESC # ''[1m''"
definition RESET_ALL :: string where "RESET_ALL = ESC # ''[0m''"
definition Fore_RED :: string where "Fore_RED = ESC # ''[31m''"
definition Fore_GREEN :: string where "Fore_GREEN = ESC # ''[32m''"
definition Fore_YELLOW :: string where "Fore_YELLOW = ESC # ''[33m''"
definition Fore_BLUE :: string where "Fore_BLUE = ESC # ''[34m''"

section \<open>Errors, findings, rules and the constants of the package\<close>

text \<open>
  Modelled from the spec: the class \<open>SemgrepError\<close>, its subclass \<open>MatchTimeoutError\<close>
  and the enumeration \<open>Level\<close> live in \<open>semgrep.error\<close>, outside the files at hand.
  A structured error has a level (ERROR or WARN), an exit code, a message and a kind:
  a match timeout with its target path and rule identifier, or another kind with its
  discriminator and an optional path and rule identifier. Two errors are the same
  error when all their fields agree.
\<close>

datatype level = ERROR | WARN

datatype error_kind =
    MatchTimeout string string
  | OtherKind string "string option" "string option"

record semgrep_error =
  err_level :: level
  err_code :: int
  err_msg :: string
  err_kind :: error_kind

definition is_MatchTimeoutError :: "semgrep_error \<Rightarrow> bool" where
  "is_MatchTimeoutError e = (case err_kind e of MatchTimeout p r \<Rightarrow> True | OtherKind t p r \<Rightarrow> False)"

definition timeout_path :: "semgrep_error \<Rightarrow> string" where
  "timeout_path e =
     (case err_kind e of MatchTimeout p r \<Rightarrow> p
      | OtherKind t p r \<Rightarrow> (case p of None \<Rightarrow> ''None'' | Some q \<Rightarrow> q))"

definition timeout_rule_id :: "semgrep_error \<Rightarrow> string" where
  "timeout_rule_id e =
     (case err_kind e of MatchTimeout p r \<Rightarrow> r
      | OtherKind t p r \<Rightarrow> (case r of None \<Rightarrow> ''None'' | Some q \<Rightarrow> q))"

text \<open>
  The exceptions the code raises or lets through: a structured error, the built-in
  errors of Python the renderers can run into, the plain \<open>Exception\<close> and
  \<open>RuntimeError\<close> with their messages, and any other exception by its name.
\<close>

datatype exn =
    SemgrepError semgrep_error
  | IndexError
  | KeyError
  | PlainException string
  | RuntimeError string
  | OtherException string

text \<open>
  Modelled from the spec: the class \<open>RuleMatch\<close> lives in \<open>semgrep.rule_match\<close>. A finding
  has the identifier of its rule, a target path, a message, a severity, a start and an
  end position (line and column, so that \<open>start.get("line")\<close> is the line), the source
  lines it covers, the optional lines after the fix (\<open>extra["fixed_lines"]\<close>), an
  optional fix and an optional regex fix, a dictionary whose entries \<open>regex\<close>,
  \<open>replacement\<close> and \<open>count\<close> may each be absent.
\<close>

record fix_regex_dict =
  fr_regex :: "string option"
  fr_replacement :: "string option"
  fr_count :: "int option"

record rule_match =
  check_id :: string
  path :: string
  message :: string
  severity :: string
  start_line :: int
  start_col :: int
  end_line :: int
  end_col :: int
  lines :: "string list"
  fixed_lines :: "string list option"
  fix_text :: "string option"
  fix_regex :: "fix_regex_dict option"

text \<open>
  JSON values, as the serializers build them before \<open>json.dumps\<close>. A floating-point
  duration is carried as its mantissa and exponent and never computed with.
\<close>

datatype pyfloat = PyFloat int int

datatype json =
    JNull
  | JBool bool
  | JInt int
  | JFloat pyfloat
  | JStr string
  | JArr "json list"
  | JObj "(string \<times> json) list"

text \<open>
  Modelled from the spec: a \<open>Rule\<close> (\<open>semgrep.rule\<close>) identifies a check definition: its
  id, its severity and the metadata the SARIF and JUnit formats need.
\<close>

record rule =
  rule_id :: string
  rule_severity :: string
  rule_metadata :: json

text \<open>
  The constants of \<open>semgrep.constants\<close> and \<open>semgrep.error\<close> the code reads are
  parameters of the model: the break line, the id of a rule given on the command line,
  the name of the flag, the exit codes, the level a \<open>SemgrepError\<close> gets when none is
  given, and the two compiled regular expressions. \<open>NOSEM_INLINE_RE\<close> stands for
  \<open>NOSEM_INLINE_RE.search(line)\<close> followed by \<open>groupdict()["ids"]\<close>: \<open>None\<close> when the
  line has no annotation, \<open>Some None\<close> for an annotation with no identifier list,
  \<open>Some (Some ids)\<close> otherwise. \<open>COMMA_SEPARATED_LIST_RE\<close> stands for its \<open>split\<close>.
\<close>

record constants =
  BREAK_LINE :: string
  BREAK_LINE_CHAR :: char
  BREAK_LINE_WIDTH :: nat
  CLI_RULE_ID :: string
  MAX_LINES_FLAG_NAME :: string
  FINDINGS_EXIT_CODE :: int
  FATAL_EXIT_CODE :: int
  DEFAULT_LEVEL :: level
  NOSEM_INLINE_RE :: "string \<Rightarrow> string option option"
  COMMA_SEPARATED_LIST_RE :: "string \<Rightarrow> string list"

text \<open>\<open>SemgrepError(msg)\<close> and \<open>SemgrepError(msg, code=c)\<close>.\<close>

definition new_SemgrepError :: "constants \<Rightarrow> string \<Rightarrow> int \<Rightarrow> semgrep_error" where
  "new_SemgrepError K msg c =
     \<lparr>err_level = DEFAULT_LEVEL K, err_code = c, err_msg = msg,
      err_kind = OtherKind ''SemgrepError'' None None\<rparr>"

section \<open>The line renderer\<close>

text \<open>\<open>color_line\<close>: the span of the finding on this line, in bold.\<close>

definition color_line :: "string \<Rightarrow> int \<Rightarrow> int \<Rightarrow> int \<Rightarrow> int \<Rightarrow> int \<Rightarrow> string" where
  "color_line line line_number start_ln start_cl end_ln end_cl =
     (let start_color0 = (if line_number > start_ln then 0 else start_cl);
          start_color = max (start_color0 - 1) 0;
          end_color0 = (if line_number \<ge> end_ln then end_cl else int (length line) + 1 + 1);
          end_color = max (end_color0 - 1) 0
      in py_slice 0 start_color line
         @ BRIGHT
         @ py_slice start_color (end_color + 1) line
         @ RESET_ALL
         @ drop (nat (end_color + 1)) line)"

text \<open>One round of the loop over the lines: the line at index \<open>i\<close>.\<close>

definition render_line :: "rule_match \<Rightarrow> bool \<Rightarrow> nat \<Rightarrow> string \<Rightarrow> string" where
  "render_line rm color_output i line0 =
     (let line = rstrip line0;
          sl = start_line rm
      in if sl = 0 then line
         else if color_output then
           (Fore_GREEN @ str_int (sl + int i) @ RESET_ALL) @ '':''
             @ color_line line (sl + int i) sl (start_col rm) (end_line rm) (end_col rm)
         else str_int (sl + int i) @ '':'' @ line)"

fun render_lines :: "rule_match \<Rightarrow> bool \<Rightarrow> nat \<Rightarrow> string list \<Rightarrow> string list" where
  "render_lines rm color_output i [] = []"
| "render_lines rm color_output i (l # ls) =
     render_line rm color_output i l # render_lines rm color_output (Suc i) ls"

text \<open>\<open>rule_match.extra.get("fixed_lines") or rule_match.lines\<close>.\<close>

definition available_lines :: "rule_match \<Rightarrow> string list" where
  "available_lines rm =
     (case fixed_lines rm of
        None \<Rightarrow> lines rm
      | Some fl \<Rightarrow> if fl = [] then lines rm else fl)"

definition trimmed_str :: "constants \<Rightarrow> int \<Rightarrow> string" where
  "trimmed_str K trimmed =
     '' [hid '' @ str_int trimmed @ '' additional lines, adjust with ''
       @ MAX_LINES_FLAG_NAME K @ ''] ''"

text \<open>
  \<open>finding_to_line\<close>, with the lines it yields as a list. A limit of \<open>None\<close> or \<open>0\<close> is
  no limit (\<open>if per_finding_max_lines_limit:\<close>).
\<close>

definition finding_to_line ::
  "constants \<Rightarrow> rule_match \<Rightarrow> bool \<Rightarrow> int option \<Rightarrow> bool \<Rightarrow> string list" where
  "finding_to_line K rm color_output per_finding_max_lines_limit show_separator =
     (if path rm = [] then []
      else
        let lines0 = available_lines rm;
            (trimmed, lines1) =
              (case per_finding_max_lines_limit of
                 None \<Rightarrow> (0, lines0)
               | Some n \<Rightarrow>
                   if n = 0 then (0, lines0)
                   else (int (length lines0) - n, py_take n lines0))
        in render_lines rm color_output 0 lines1 @
             (if per_finding_max_lines_limit = Some 1 then []
              else if trimmed > 0 then
                [center (BREAK_LINE_WIDTH K) (BREAK_LINE_CHAR K) (trimmed_str K trimmed)]
              else if show_separator then [BREAK_LINE K]
              else []))"

section \<open>The text renderer\<close>

text \<open>
  What one round of the loop of \<open>build_normal_output\<close> yields, in the order it yields
  it: the blank line and the path when the file changes, the rule and message header,
  the lines of the finding, the autofix line.
\<close>

record block =
  file_header :: "string list"
  rule_header :: "string list"
  finding_lines :: "string list"
  autofix_line :: "string list"

definition severity_prepend :: "bool \<Rightarrow> string \<Rightarrow> string" where
  "severity_prepend color_output sev =
     (if sev = [] then []
      else if sev = ''error'' then
        (if color_output then Fore_RED else []) @ ''severity:'' @ sev @ '' ''
      else if sev = ''warning'' then
        (if color_output then Fore_YELLOW else []) @ ''severity:'' @ sev @ '' ''
      else ''severity:'' @ sev @ '' '')"

definition str_opt :: "string option \<Rightarrow> string" where
  "str_opt v = (case v of None \<Rightarrow> ''None'' | Some s \<Rightarrow> s)"

definition autofix_of :: "bool \<Rightarrow> rule_match \<Rightarrow> string list" where
  "autofix_of color_output rm =
     (let BLUE_COLOR = (if color_output then Fore_BLUE else []);
          RESET_COLOR = (if color_output then RESET_ALL else [])
      in case fix_text rm of
           Some (c # cs) \<Rightarrow> [BLUE_COLOR @ ''autofix:'' @ RESET_COLOR @ '' '' @ (c # cs)]
         | _ \<Rightarrow>
             (case fix_regex rm of
                None \<Rightarrow> []
              | Some fr \<Rightarrow>
                  if fr_regex fr = None \<and> fr_replacement fr = None \<and> fr_count fr = None then []
                  else [BLUE_COLOR @ ''autofix:'' @ RESET_COLOR @ '' s/'' @ str_opt (fr_regex fr)
                        @ ''/'' @ str_opt (fr_replacement fr) @ ''/''
                        @ (case fr_count fr of None \<Rightarrow> ''g'' | Some c \<Rightarrow> str_int c)]))"

text \<open>
  The header of the rule is shown when the rule id is neither empty nor the id of a
  command-line pattern and the message differs from the last one shown in this file.
\<close>

definition normal_step ::
  "constants \<Rightarrow> bool \<Rightarrow> int option \<Rightarrow> string option \<Rightarrow> string option \<Rightarrow>
   rule_match \<Rightarrow> rule_match option \<Rightarrow> block" where
  "normal_step K color_output lim last_file last_message0 rm next_rule_match =
     (let RESET_COLOR = (if color_output then RESET_ALL else []);
          GREEN_COLOR = (if color_output then Fore_GREEN else []);
          YELLOW_COLOR = (if color_output then Fore_YELLOW else []);
          current_file = path rm;
          sev = lower (severity rm);
          new_file = (last_file = None \<or> last_file \<noteq> Some current_file);
          last_message = (if new_file then None else last_message0);
          is_same_file =
            (case next_rule_match of None \<Rightarrow> False | Some nxt \<Rightarrow> path nxt = path rm)
      in \<lparr>file_header =
            (if new_file then
               (if last_file \<noteq> None then [[]] else [])
                 @ [GREEN_COLOR @ current_file @ RESET_COLOR]
             else []),
          rule_header =
            (if check_id rm \<noteq> [] \<and> check_id rm \<noteq> CLI_RULE_ID K
                \<and> (last_message = None \<or> last_message \<noteq> Some (message rm)) then
               [severity_prepend color_output sev @ YELLOW_COLOR @ ''rule:'' @ check_id rm
                  @ '': '' @ message rm @ RESET_COLOR]
             else []),
          finding_lines = finding_to_line K rm color_output lim is_same_file,
          autofix_line = autofix_of color_output rm\<rparr>)"

fun normal_blocks ::
  "constants \<Rightarrow> bool \<Rightarrow> int option \<Rightarrow> string option \<Rightarrow> string option \<Rightarrow>
   rule_match list \<Rightarrow> block list" where
  "normal_blocks K color_output lim last_file last_message [] = []"
| "normal_blocks K color_output lim last_file last_message (rm # rest) =
     normal_step K color_output lim last_file last_message rm
       (case rest of [] \<Rightarrow> None | nxt # others \<Rightarrow> Some nxt)
     # normal_blocks K color_output lim (Some (path rm)) (Some (message rm)) rest"

definition yield_block :: "block \<Rightarrow> string list" where
  "yield_block b = file_header b @ rule_header b @ finding_lines b @ autofix_line b"

text \<open>\<open>sorted(rule_matches, key=lambda r: (r.path, r.id))\<close>: a stable sort.\<close>

definition sorted_rule_matches :: "rule_match list \<Rightarrow> rule_match list" where
  "sorted_rule_matches rule_matches = sort_key (\<lambda>r. (path r, check_id r)) rule_matches"

definition build_normal_output ::
  "constants \<Rightarrow> rule_match list \<Rightarrow> bool \<Rightarrow> int option \<Rightarrow> string list" where
  "build_normal_output K rule_matches color_output per_finding_max_lines_limit =
     concat (map yield_block
       (normal_blocks K color_output per_finding_max_lines_limit None None
          (sorted_rule_matches rule_matches)))"

section \<open>The other renderers\<close>

text \<open>The results of a comprehension whose element may raise: the first error wins.\<close>

fun collect :: "(exn + 'a) list \<Rightarrow> exn + 'a list" where
  "collect [] = Inr []"
| "collect (r # rs) =
     (case r of
        Inl e \<Rightarrow> Inl e
      | Inr x \<Rightarrow> (case collect rs of Inl e \<Rightarrow> Inl e | Inr xs \<Rightarrow> Inr (x # xs)))"

text \<open>
  Code of the package outside the files at hand, and \<open>json.dumps\<close>, as parameters:
  the serializers of findings, errors and rules, the statistics of the targets, the
  JUnit report of the vendored library, the version and \<open>str(error)\<close>.
\<close>

record serializers =
  rm_to_json :: "rule_match \<Rightarrow> json"
  rm_to_sarif :: "rule_match \<Rightarrow> json"
  rm_to_junit_xml :: "rule_match \<Rightarrow> json"
  rule_to_sarif :: "rule \<Rightarrow> json"
  err_to_dict :: "semgrep_error \<Rightarrow> (string \<times> json) list"
  str_of_error :: "semgrep_error \<Rightarrow> string"
  make_target_stats :: "string list \<Rightarrow> json"
  make_loc_stats :: "string list \<Rightarrow> json"
  to_xml_report_string :: "(string \<times> json list) list \<Rightarrow> string"
  json_dumps :: "json \<Rightarrow> string"
  VERSION :: string

definition float_zero :: pyfloat where
  "float_zero = PyFloat 0 0"

text \<open>A Python \<open>dict\<close> keeps its keys in insertion order; storing under a key it has
  keeps the position of the key.\<close>

fun dict_set :: "'k \<Rightarrow> 'v \<Rightarrow> ('k \<times> 'v) list \<Rightarrow> ('k \<times> 'v) list" where
  "dict_set k v [] = [(k, v)]"
| "dict_set k v ((k', v') # d) = (if k' = k then (k, v) # d else (k', v') # dict_set k v d)"

definition dict_update :: "('k \<times> 'v) list \<Rightarrow> ('k \<times> 'v) list \<Rightarrow> ('k \<times> 'v) list" where
  "dict_update d other = foldl (\<lambda>acc (k, v). dict_set k v acc) d other"

definition dict_get :: "(string \<times> json) list \<Rightarrow> string \<Rightarrow> json" where
  "dict_get d k = (case map_of d k of None \<Rightarrow> JNull | Some v \<Rightarrow> v)"

definition build_time_target_json ::
  "serializers \<Rightarrow> rule list \<Rightarrow> string \<Rightarrow> (string \<times> string \<Rightarrow> pyfloat option) \<Rightarrow> json" where
  "build_time_target_json X rules0 target match_time_matrix0 =
     JObj [(''path'', JStr target),
           (''match_times'',
            JArr (map (\<lambda>r. JFloat (case match_time_matrix0 (rule_id r, target) of
                                      None \<Rightarrow> float_zero | Some t \<Rightarrow> t)) rules0))]"

definition build_time_json ::
  "serializers \<Rightarrow> rule list \<Rightarrow> string list \<Rightarrow> (string \<times> string \<Rightarrow> pyfloat option) \<Rightarrow> json" where
  "build_time_json X rules0 targets match_time_matrix0 =
     JObj [(''rules'', JArr (map (\<lambda>r. JObj [(''id'', JStr (rule_id r))]) rules0)),
           (''targets'',
            JArr (map (\<lambda>t. build_time_target_json X rules0 t match_time_matrix0) targets))]"

definition build_output_json ::
  "serializers \<Rightarrow> rule_match list \<Rightarrow> semgrep_error list \<Rightarrow> string list \<Rightarrow> bool \<Rightarrow> bool \<Rightarrow>
   rule list \<Rightarrow> (string \<times> string \<Rightarrow> pyfloat option) \<Rightarrow> json option \<Rightarrow>
   (rule \<times> json list) list option \<Rightarrow> string" where
  "build_output_json X rule_matches0 semgrep_structured_errors0 all_targets0 show_json_stats
     report_time filtered_rules0 match_time_matrix0 profiler0 debug_steps =
     json_dumps X (JObj (
       [(''results'', JArr (map (rm_to_json X) rule_matches0))]
       @ (case debug_steps of
            None \<Rightarrow> []
          | Some d \<Rightarrow>
              if d = [] then []
              else [(''debug'',
                     JArr [JObj (foldl (\<lambda>acc (r, steps). dict_set (rule_id r) (JArr steps) acc) [] d)])])
       @ [(''errors'', JArr (map (\<lambda>e. JObj (err_to_dict X e)) semgrep_structured_errors0))]
       @ (if show_json_stats then
            [(''stats'',
              JObj [(''targets'', make_target_stats X all_targets0),
                    (''loc'', make_loc_stats X all_targets0),
                    (''profiler'', (case profiler0 of None \<Rightarrow> JNull | Some p \<Rightarrow> p))])]
          else [])
       @ (if report_time then
            [(''time'', build_time_json X filtered_rules0 all_targets0 match_time_matrix0)]
          else [])))"

definition build_junit_xml_output :: "serializers \<Rightarrow> rule_match list \<Rightarrow> rule list \<Rightarrow> string" where
  "build_junit_xml_output X rule_matches0 rules0 =
     to_xml_report_string X [(''semgrep results'', map (rm_to_junit_xml X) rule_matches0)]"

definition sarif_tool_info :: "serializers \<Rightarrow> (string \<times> json) list" where
  "sarif_tool_info X = [(''name'', JStr ''semgrep''), (''semanticVersion'', JStr (VERSION X))]"

definition sarif_notification_from_error :: "serializers \<Rightarrow> semgrep_error \<Rightarrow> exn + json" where
  "sarif_notification_from_error X error =
     (let error_dict = err_to_dict X error in
      case map_of error_dict ''type'' of
        None \<Rightarrow> Inl KeyError
      | Some descriptor \<Rightarrow>
          (case map_of error_dict ''level'' of
             None \<Rightarrow> Inl KeyError
           | Some lv \<Rightarrow>
               (case map_of [(JStr ''error'', ''error''), (JStr ''warn'', ''warning'')] lv of
                  None \<Rightarrow> Inl KeyError
                | Some sarif_level \<Rightarrow>
                    (let m1 = dict_get error_dict ''message'';
                         m2 = (if m1 = JNull then dict_get error_dict ''long_msg'' else m1);
                         m3 = (if m2 = JNull then
                                 (case map_of error_dict ''short_msg'' of
                                    None \<Rightarrow> JStr [] | Some v \<Rightarrow> v)
                               else m2)
                     in Inr (JObj [(''descriptor'', JObj [(''id'', descriptor)]),
                                   (''message'', JObj [(''text'', m3)]),
                                   (''level'', JStr sarif_level)])))))"

definition build_sarif_output ::
  "serializers \<Rightarrow> rule_match list \<Rightarrow> rule list \<Rightarrow> semgrep_error list \<Rightarrow> exn + string" where
  "build_sarif_output X rule_matches0 rules0 semgrep_structured_errors0 =
     (case collect (map (sarif_notification_from_error X) semgrep_structured_errors0) of
        Inl e \<Rightarrow> Inl e
      | Inr notifications \<Rightarrow>
          Inr (json_dumps X (JObj
            [(''$schema'', JStr ''https://raw.githubusercontent.com/oasis-tcs/sarif-spec/master/Schemata/sarif-schema-2.1.0.json''),
             (''version'', JStr ''2.1.0''),
             (''runs'', JArr [JObj
                [(''tool'', JObj [(''driver'', JObj (sarif_tool_info X
                     @ [(''rules'', JArr (map (rule_to_sarif X) rules0))]))]),
                 (''results'', JArr (map (rm_to_sarif X) rule_matches0)),
                 (''invocations'',
                  JArr [JObj [(''toolExecutionNotifications'', JArr notifications)]])]])])))"

text \<open>\<open>check_id.split(".")[-1]\<close>: what follows the last dot.\<close>

definition last_component :: "string \<Rightarrow> string" where
  "last_component s = rev (takeWhile (\<lambda>c. c \<noteq> CHR ''.'') (rev s))"

definition emacs_line :: "constants \<Rightarrow> rule_match \<Rightarrow> exn + string" where
  "emacs_line K rm =
     (case lines rm of
        [] \<Rightarrow> Inl IndexError
      | l # ls \<Rightarrow>
          (let line = rstrip l;
               info = (if check_id rm \<noteq> [] \<and> check_id rm \<noteq> CLI_RULE_ID K
                       then ''('' @ last_component (check_id rm) @ '')'' else [])
           in Inr (path rm @ '':'' @ str_int (start_line rm) @ '':'' @ str_int (start_col rm)
                   @ '':'' @ lower (severity rm) @ info @ '':'' @ line)))"

definition newline :: string where
  "newline = [CHR 0x0A]"

definition build_emacs_output :: "constants \<Rightarrow> rule_match list \<Rightarrow> rule list \<Rightarrow> exn + string" where
  "build_emacs_output K rule_matches0 rules0 =
     (case collect (map (emacs_line K) (sorted_rule_matches rule_matches0)) of
        Inl e \<Rightarrow> Inl e
      | Inr ls \<Rightarrow> Inr (join newline ls))"

definition vim_get_parts :: "rule_match \<Rightarrow> exn + string list" where
  "vim_get_parts rm =
     (case map_of [(''INFO'', ''I''), (''WARNING'', ''W''), (''ERROR'', ''E'')] (severity rm) of
        None \<Rightarrow> Inl KeyError
      | Some sev \<Rightarrow>
          Inr [path rm, str_int (start_line rm), str_int (start_col rm), sev,
               check_id rm, message rm])"

definition build_vim_output :: "rule_match list \<Rightarrow> rule list \<Rightarrow> exn + string" where
  "build_vim_output rule_matches0 rules0 =
     (case collect (map vim_get_parts rule_matches0) of
        Inl e \<Rightarrow> Inl e
      | Inr parts \<Rightarrow> Inr (join newline (map (join '':'') parts)))"

section \<open>The output handler\<close>

text \<open>
  Modelled from the spec: the enumeration \<open>OutputFormat\<close> of \<open>semgrep.constants\<close>, one of
  text, json, json-debug, sarif, junit-xml, emacs and vim; \<open>is_json\<close> holds of the two
  JSON formats. With every member covered, the last branch of \<open>build_output\<close>, for an
  unhandled format, has no input.
\<close>

datatype OutputFormat = TEXT | JSON | JSON_DEBUG | JUNIT_XML | SARIF | EMACS | VIM

definition is_json :: "OutputFormat \<Rightarrow> bool" where
  "is_json f = (f = JSON \<or> f = JSON_DEBUG)"

record OutputSettings =
  output_format :: OutputFormat
  output_destination :: "string option"
  error_on_findings :: bool
  verbose_errors :: bool
  strict :: bool
  output_per_finding_max_lines_limit :: "int option"
  json_stats :: bool
  json_time :: bool
  timeout_threshold :: int

text \<open>
  The fields of an \<open>OutputHandler\<close>. The two sets of rules and of targets are kept as
  lists without repetition, in the order the interpreter iterates over them; the
  profiler is kept as the statistics it dumps.
\<close>

record OutputHandler =
  settings :: OutputSettings
  rule_matches :: "rule_match list"
  debug_steps_by_rule :: "(rule \<times> json list) list"
  stats_line :: "string option"
  all_targets :: "string list"
  profiler :: "json option"
  rules :: "rule list"
  semgrep_structured_errors :: "semgrep_error list"
  error_set :: "semgrep_error set"
  has_output :: bool
  filtered_rules :: "rule list"
  match_time_matrix :: "string \<times> string \<Rightarrow> pyfloat option"
  final_error :: "exn option"

definition new_OutputHandler :: "OutputSettings \<Rightarrow> OutputHandler" where
  "new_OutputHandler output_settings =
     \<lparr>settings = output_settings,
      rule_matches = [],
      debug_steps_by_rule = [],
      stats_line = None,
      all_targets = [],
      profiler = None,
      rules = [],
      semgrep_structured_errors = [],
      error_set = {},
      has_output = False,
      filtered_rules = [],
      match_time_matrix = (\<lambda>k. None),
      final_error = None\<rparr>"

text \<open>
  What the handler does to the world, in order: the records it logs, the call of the
  renderer, the line it prints to its standard output, the request it posts and the
  file it writes.
\<close>

datatype event =
    LogError string
  | LogInfo string
  | LogDebug string
  | Render OutputFormat
  | StdoutPrint string
  | HttpPost string string
  | FileWrite string string

text \<open>
  What the world answers: whether the two streams are terminals, the global flag
  \<open>FORCE_COLOR\<close>, whether the standard output can encode a text, the scheme and network
  location \<open>urlparse\<close> finds (\<open>None\<close> for a \<open>ValueError\<close>), the outcome of a POST, whether a
  path is absolute, the base path joined with a relative one, and the exception, if
  any, of creating the folders and writing the file.
\<close>

datatype post_result = Responded int | TimedOut | Failed exn

record io =
  stdout_isatty :: bool
  stderr_isatty :: bool
  FORCE_COLOR :: bool
  stdout_encodes :: "string \<Rightarrow> bool"
  urlparse :: "string \<Rightarrow> (string \<times> string) option"
  requests_post :: "string \<Rightarrow> string \<Rightarrow> post_result"
  is_absolute :: "string \<Rightarrow> bool"
  base_path_joinpath :: "string \<Rightarrow> string"
  write_text :: "string \<Rightarrow> string \<Rightarrow> exn option"

definition is_url :: "io \<Rightarrow> string \<Rightarrow> bool" where
  "is_url w url =
     (case urlparse w url of
        None \<Rightarrow> False
      | Some (scheme, netloc) \<Rightarrow> scheme \<noteq> [] \<and> netloc \<noteq> [])"

definition Fore_RESET :: string where
  "Fore_RESET = ESC # ''[39m''"

definition with_color :: "io \<Rightarrow> string \<Rightarrow> string \<Rightarrow> string" where
  "with_color w color text0 =
     (if \<not> stderr_isatty w \<and> \<not> FORCE_COLOR w then text0 else color @ text0 @ Fore_RESET)"

text \<open>
  \<open>handle_semgrep_error\<close>. Every method of the handler takes the handler and returns
  the events it causes and the handler afterwards.
\<close>

definition handle_semgrep_error ::
  "serializers \<Rightarrow> semgrep_error \<Rightarrow> OutputHandler \<Rightarrow> event list \<times> OutputHandler" where
  "handle_semgrep_error X error self0 =
     (let self = self0\<lparr>has_output := True\<rparr> in
      if error \<notin> error_set self then
        ((if output_format (settings self) = TEXT
             \<and> (err_level error \<noteq> WARN \<or> verbose_errors (settings self))
          then [LogError (str_of_error X error)] else []),
         self\<lparr>semgrep_structured_errors := semgrep_structured_errors self @ [error],
              error_set := insert error (error_set self)\<rparr>)
      else ([], self))"

text \<open>\<open>timeout_errors[err.path].append(err.rule_id)\<close> on a \<open>defaultdict(list)\<close>.\<close>

fun defaultdict_append :: "string \<Rightarrow> string \<Rightarrow> (string \<times> string list) list \<Rightarrow> (string \<times> string list) list" where
  "defaultdict_append k v [] = [(k, [v])]"
| "defaultdict_append k v ((k', vs) # d) =
     (if k' = k then (k, vs @ [v]) # d else (k', vs) # defaultdict_append k v d)"

definition timeout_error_msg :: "OutputSettings \<Rightarrow> string \<Rightarrow> string list \<Rightarrow> string" where
  "timeout_error_msg st p ids =
     (let num_errs = int (length ids) in
      ''Warning: '' @ str_int num_errs @ '' timeout error(s) in '' @ p
        @ '' when running the following rules: ['' @ join '', '' (sort ids) @ '']''
        @ (if num_errs = timeout_threshold st then
             newline @ ''Semgrep stopped running rules on '' @ p @ '' after '' @ str_int num_errs
               @ '' timeout error(s). See `--timeout-threshold` for more info.''
           else []))"

definition handle_semgrep_timeout_errors ::
  "io \<Rightarrow> (string \<times> string list) list \<Rightarrow> OutputHandler \<Rightarrow> event list \<times> OutputHandler" where
  "handle_semgrep_timeout_errors w errors self =
     (let print_threshold_hint =
            list_ex (\<lambda>(p, ids). 5 < length ids \<and> timeout_threshold (settings self) = 0) errors
      in (map (\<lambda>(p, ids). LogError (with_color w Fore_RED (timeout_error_msg (settings self) p ids)))
            errors
          @ (if print_threshold_hint then
               [LogError (with_color w Fore_RED
                  ''You can use the `--timeout-threshold` flag to set a number of timeouts after which a file will be skipped.'')]
             else []),
          self\<lparr>has_output := True\<rparr>))"

text \<open>The loop of \<open>handle_semgrep_errors\<close>, with the dictionary of the timeouts it fills.\<close>

fun handle_semgrep_errors_loop ::
  "serializers \<Rightarrow> semgrep_error list \<Rightarrow> (string \<times> string list) list \<Rightarrow> OutputHandler \<Rightarrow>
   event list \<times> (string \<times> string list) list \<times> OutputHandler" where
  "handle_semgrep_errors_loop X [] timeout_errors self = ([], timeout_errors, self)"
| "handle_semgrep_errors_loop X (err # errs) timeout_errors self =
     (if is_MatchTimeoutError err \<and> err \<notin> error_set self then
        handle_semgrep_errors_loop X errs
          (defaultdict_append (timeout_path err) (timeout_rule_id err) timeout_errors)
          (self\<lparr>semgrep_structured_errors := semgrep_structured_errors self @ [err],
                error_set := insert err (error_set self)\<rparr>)
      else
        (let (evs1, self1) = handle_semgrep_error X err self;
             (evs2, timeout_errors2, self2) = handle_semgrep_errors_loop X errs timeout_errors self1
         in (evs1 @ evs2, timeout_errors2, self2)))"

definition handle_semgrep_errors ::
  "serializers \<Rightarrow> io \<Rightarrow> semgrep_error list \<Rightarrow> OutputHandler \<Rightarrow> event list \<times> OutputHandler" where
  "handle_semgrep_errors X w errors self =
     (let (evs1, timeout_errors, self1) = handle_semgrep_errors_loop X errors [] self in
      if timeout_errors \<noteq> [] \<and> output_format (settings self1) = TEXT then
        (let (evs2, self2) = handle_semgrep_timeout_errors w timeout_errors self1
         in (evs1 @ evs2, self2))
      else (evs1, self1))"

text \<open>The arguments of \<open>handle_semgrep_core_output\<close>: what one run of the engine gives.\<close>

record core_output =
  co_rule_matches_by_rule :: "(rule \<times> rule_match list) list"
  co_debug_steps_by_rule :: "(rule \<times> json list) list"
  co_stats_line :: string
  co_all_targets :: "string list"
  co_profiler :: json
  co_filtered_rules :: "rule list"
  co_match_time_matrix :: "string \<times> string \<Rightarrow> pyfloat option"

definition frozenset_union :: "'a list \<Rightarrow> 'a list \<Rightarrow> 'a list" where
  "frozenset_union xs ys = remdups (xs @ ys)"

definition handle_semgrep_core_output ::
  "core_output \<Rightarrow> OutputHandler \<Rightarrow> event list \<times> OutputHandler" where
  "handle_semgrep_core_output out self =
     ([], self\<lparr>has_output := True,
               rules := frozenset_union (rules self) (map fst (co_rule_matches_by_rule out)),
               rule_matches := rule_matches self @ concat (map snd (co_rule_matches_by_rule out)),
               profiler := Some (co_profiler out),
               all_targets := co_all_targets out,
               stats_line := Some (co_stats_line out),
               debug_steps_by_rule :=
                 dict_update (debug_steps_by_rule self) (co_debug_steps_by_rule out),
               filtered_rules := co_filtered_rules out,
               match_time_matrix := co_match_time_matrix out\<rparr>)"

definition handle_unhandled_exception ::
  "serializers \<Rightarrow> exn \<Rightarrow> OutputHandler \<Rightarrow> event list \<times> OutputHandler" where
  "handle_unhandled_exception X ex self =
     (let (evs, self1) =
            (case ex of
               SemgrepError e \<Rightarrow> handle_semgrep_error X e self
             | _ \<Rightarrow> ([], self))
      in (evs, self1\<lparr>final_error := Some ex\<rparr>))"

text \<open>
  \<open>final_raise\<close>: the events and the exception raised, if any. A structured error that
  is not at level ERROR is raised in strict mode only; otherwise a hint is logged.
\<close>

definition final_raise ::
  "OutputHandler \<Rightarrow> exn option \<Rightarrow> string option \<Rightarrow> event list \<times> exn option" where
  "final_raise self ex error_stats =
     (case ex of
        None \<Rightarrow> ([], None)
      | Some x \<Rightarrow>
          (case x of
             SemgrepError e \<Rightarrow>
               if err_level e = ERROR then ([], Some x)
               else if strict (settings self) then ([], Some x)
               else ([LogInfo (str_opt error_stats
                       @ ''; run with --verbose for details or run with --strict to exit non-zero if any file cannot be analyzed'')],
                     None)
           | _ \<Rightarrow> ([], Some x)))"

definition post_output :: "constants \<Rightarrow> io \<Rightarrow> string \<Rightarrow> string \<Rightarrow> event list \<times> exn option" where
  "post_output K w output_url output =
     (case requests_post w output_url output of
        Responded status_code \<Rightarrow>
          ([LogInfo (''posting to '' @ output_url @ ''...''), HttpPost output_url output,
            LogDebug (''posted to '' @ output_url @ '' and got status_code:'' @ str_int status_code)],
           None)
      | TimedOut \<Rightarrow>
          ([LogInfo (''posting to '' @ output_url @ ''...''), HttpPost output_url output],
           Some (SemgrepError (new_SemgrepError K
             (''posting output to '' @ output_url @ '' timed out'') (FATAL_EXIT_CODE K))))
      | Failed e \<Rightarrow>
          ([LogInfo (''posting to '' @ output_url @ ''...''), HttpPost output_url output],
           Some e))"

definition save_output :: "constants \<Rightarrow> io \<Rightarrow> string \<Rightarrow> string \<Rightarrow> event list \<times> exn option" where
  "save_output K w destination output =
     (if is_url w destination then post_output K w destination output
      else
        (let save_path = (if is_absolute w destination then destination
                          else base_path_joinpath w destination)
         in case write_text w save_path output of
              None \<Rightarrow> ([FileWrite save_path output], None)
            | Some e \<Rightarrow> ([], Some e)))"

text \<open>
  \<open>build_output\<close>: the rendered report, or the exception of a renderer, together with
  the events of the call and the handler afterwards.
\<close>

definition build_output ::
  "constants \<Rightarrow> serializers \<Rightarrow> OutputHandler \<Rightarrow> bool \<Rightarrow> int option \<Rightarrow>
   event list \<times> (exn + string) \<times> OutputHandler" where
  "build_output K X self color_output per_finding_max_lines_limit =
     (let fmt = output_format (settings self);
          debug_steps = (if fmt = JSON_DEBUG then Some (debug_steps_by_rule self) else None)
      in ([],
          (if is_json fmt then
             Inr (build_output_json X (rule_matches self) (semgrep_structured_errors self)
                    (all_targets self) (json_stats (settings self)) (json_time (settings self))
                    (filtered_rules self) (match_time_matrix self) (profiler self) debug_steps)
           else if fmt = JUNIT_XML then
             Inr (build_junit_xml_output X (rule_matches self) (rules self))
           else if fmt = SARIF then
             build_sarif_output X (rule_matches self) (rules self) (semgrep_structured_errors self)
           else if fmt = EMACS then
             build_emacs_output K (rule_matches self) (rules self)
           else if fmt = VIM then
             build_vim_output (rule_matches self) (rules self)
           else
             Inr (join newline
                    (build_normal_output K (rule_matches self) color_output
                       per_finding_max_lines_limit))),
          self))"

text \<open>
  The first half of \<open>close\<close>, run when the handler has output: render, print what was
  rendered when it is not empty, log the statistics, and save to the destination when
  one is given.
\<close>

definition close_output ::
  "constants \<Rightarrow> serializers \<Rightarrow> io \<Rightarrow> OutputHandler \<Rightarrow> event list \<times> exn option \<times> OutputHandler" where
  "close_output K X w self =
     (let (evs0, r, self1) =
            build_output K X self
              (output_destination (settings self) = None \<and> stdout_isatty w)
              (output_per_finding_max_lines_limit (settings self));
          evs = Render (output_format (settings self)) # evs0
      in case r of
           Inl e \<Rightarrow> (evs, Some e, self1)
         | Inr output \<Rightarrow>
             if output \<noteq> [] \<and> \<not> stdout_encodes w output then
               (evs,
                Some (PlainException ''Received output encoding error, please set PYTHONIOENCODING=utf-8''),
                self1)
             else
               (let evs_print = (if output \<noteq> [] then [StdoutPrint output] else []);
                    evs_stats = (case stats_line self1 of
                                   None \<Rightarrow> []
                                 | Some l \<Rightarrow> if l = [] then [] else [LogInfo l]);
                    (evs_save, raised) =
                      (case output_destination (settings self1) of
                         None \<Rightarrow> ([], None)
                       | Some d \<Rightarrow> if d = [] then ([], None) else save_output K w d output)
                in (evs @ evs_print @ evs_stats @ evs_save, raised, self1)))"

text \<open>
  The second half of \<open>close\<close>: the final error and the statistics of the errors, in the
  order of the three branches.
\<close>

definition close_final_error :: "constants \<Rightarrow> OutputHandler \<Rightarrow> exn option \<times> string option" where
  "close_final_error K self =
     (if final_error self \<noteq> None then (final_error self, None)
      else if rule_matches self \<noteq> [] \<and> error_on_findings (settings self) then
        (Some (SemgrepError (new_SemgrepError K [] (FINDINGS_EXIT_CODE K))), None)
      else if semgrep_structured_errors self \<noteq> [] then
        (Some (SemgrepError (last (semgrep_structured_errors self))),
         Some (str_int (int (length (semgrep_structured_errors self)))
               @ '' files could not be analyzed''))
      else (None, None))"

definition close ::
  "constants \<Rightarrow> serializers \<Rightarrow> io \<Rightarrow> OutputHandler \<Rightarrow> event list \<times> exn option \<times> OutputHandler" where
  "close K X w self =
     (let (evs1, raised1, self1) =
            (if has_output self then close_output K X w self else ([], None, self))
      in case raised1 of
           Some e \<Rightarrow> (evs1, Some e, self1)
         | None \<Rightarrow>
             (let (final_error0, error_stats) = close_final_error K self1;
                  (evs2, raised2) = final_raise self1 final_error0 error_stats
              in (evs1 @ evs2, raised2, self1)))"

text \<open>
  The calls a driver makes on a handler before it closes it, and a run of such calls
  from a handler.
\<close>

datatype call =
    Call_handle_semgrep_errors "semgrep_error list"
  | Call_handle_semgrep_error semgrep_error
  | Call_handle_semgrep_core_output core_output
  | Call_handle_unhandled_exception exn

fun run_call :: "serializers \<Rightarrow> io \<Rightarrow> call \<Rightarrow> OutputHandler \<Rightarrow> event list \<times> OutputHandler" where
  "run_call X w (Call_handle_semgrep_errors errors) self = handle_semgrep_errors X w errors self"
| "run_call X w (Call_handle_semgrep_error error) self = handle_semgrep_error X error self"
| "run_call X w (Call_handle_semgrep_core_output out) self = handle_semgrep_core_output out self"
| "run_call X w (Call_handle_unhandled_exception ex) self = handle_unhandled_exception X ex self"

fun run_calls :: "serializers \<Rightarrow> io \<Rightarrow> call list \<Rightarrow> OutputHandler \<Rightarrow> event list \<times> OutputHandler" where
  "run_calls X w [] self = ([], self)"
| "run_calls X w (c # cs) self =
     (let (evs1, self1) = run_call X w c self;
          (evs2, self2) = run_calls X w cs self1
      in (evs1 @ evs2, self2))"

section \<open>The suppression filter\<close>

text \<open>
  The characters \<open>[\w\-\.]\<close> of the filter. For a pattern that is a \<open>str\<close>, \<open>\w\<close> is a
  letter, a digit or a number of Unicode, or the underscore: up to \<open>U+00FF\<close> these are
  the digits, the letters and the underscore of ASCII, the ordinal indicators
  \<open>U+00AA\<close> and \<open>U+00BA\<close>, the superscripts \<open>U+00B2\<close>, \<open>U+00B3\<close> and \<open>U+00B9\<close>, the micro
  sign \<open>U+00B5\<close>, the fractions \<open>U+00BC\<close> to \<open>U+00BE\<close>, and the letters \<open>U+00C0\<close> to
  \<open>U+00FF\<close> but for the multiplication sign \<open>U+00D7\<close> and the division sign \<open>U+00F7\<close>.
  \<open>sub(r"[\w\-\.]+", "", x)\<close> removes the characters of the class, and is empty exactly
  when every character of \<open>x\<close> is one of them.
\<close>

definition is_word_char :: "char \<Rightarrow> bool" where
  "is_word_char c =
     ((CHR ''0'' \<le> c \<and> c \<le> CHR ''9'') \<or> (CHR ''A'' \<le> c \<and> c \<le> CHR ''Z'')
      \<or> c = CHR ''_'' \<or> (CHR ''a'' \<le> c \<and> c \<le> CHR ''z'')
      \<or> c = CHR 0xAA \<or> (CHR 0xB2 \<le> c \<and> c \<le> CHR 0xB3) \<or> c = CHR 0xB5
      \<or> (CHR 0xB9 \<le> c \<and> c \<le> CHR 0xBA) \<or> (CHR 0xBC \<le> c \<and> c \<le> CHR 0xBE)
      \<or> (CHR 0xC0 \<le> c \<and> c \<le> CHR 0xD6) \<or> (CHR 0xD8 \<le> c \<and> c \<le> CHR 0xF6)
      \<or> CHR 0xF8 \<le> c)"

definition is_id_char :: "char \<Rightarrow> bool" where
  "is_id_char c = (is_word_char c \<or> c = CHR ''-'' \<or> c = CHR ''.'')"

definition sub_id_chars :: "string \<Rightarrow> string" where
  "sub_id_chars x = filter (\<lambda>c. \<not> is_id_char c) x"

definition is_quote :: "char \<Rightarrow> bool" where
  "is_quote c = (c = CHR 0x22 \<or> c = CHR 0x27)"

definition quoted :: "string \<Rightarrow> string" where
  "quoted s = [CHR 0x27] @ s @ [CHR 0x27]"

text \<open>
  The set of the pattern ids, as the list without repetition the loop goes through:
  the pieces of the list that are not blank, stripped of blanks and of quotes, and of
  these the ones the filter keeps.
\<close>

definition pattern_ids :: "constants \<Rightarrow> string \<Rightarrow> string list" where
  "pattern_ids K ids_str =
     remdups (filter (\<lambda>x. sub_id_chars x = [])
       (map (\<lambda>pattern_id. strip_chars is_quote (strip pattern_id))
          (filter (\<lambda>pattern_id. strip pattern_id \<noteq> []) (COMMA_SEPARATED_LIST_RE K ids_str))))"

text \<open>The loop over the pattern ids, with the result so far.\<close>

fun nosem_loop ::
  "constants \<Rightarrow> rule_match \<Rightarrow> bool \<Rightarrow> bool \<Rightarrow> string list \<Rightarrow> event list \<times> (exn + bool)" where
  "nosem_loop K rm strict0 result [] = ([], Inr result)"
| "nosem_loop K rm strict0 result (pattern_id # ids) =
     (if check_id rm = pattern_id then
        (let (evs, r) = nosem_loop K rm strict0 (result \<or> True) ids
         in (LogDebug (''found '' @ quoted ''nosem'' @ '' comment with id '' @ quoted pattern_id
                       @ '', skipping rule '' @ quoted (check_id rm) @ '' on line ''
                       @ str_int (start_line rm)) # evs, r))
      else
        (let msg = ''found '' @ quoted ''nosem'' @ '' comment with id '' @ quoted pattern_id
                   @ '', but no corresponding rule trying '' @ quoted (check_id rm)
         in if strict0 then ([], Inl (SemgrepError (new_SemgrepError K msg (FATAL_EXIT_CODE K))))
            else (let (evs, r) = nosem_loop K rm strict0 result ids
                  in (LogDebug msg # evs, r))))"

definition rule_match_nosem :: "constants \<Rightarrow> rule_match \<Rightarrow> bool \<Rightarrow> event list \<times> (exn + bool)" where
  "rule_match_nosem K rm strict0 =
     (case lines rm of
        [] \<Rightarrow> ([], Inr False)
      | first_line # others \<Rightarrow>
          (case NOSEM_INLINE_RE K first_line of
             None \<Rightarrow> ([], Inr False)
           | Some ids \<Rightarrow>
               (case ids of
                  None \<Rightarrow>
                    ([LogDebug (''found '' @ quoted ''nosem'' @ '' comment, skipping rule ''
                                @ quoted (check_id rm) @ '' on line '' @ str_int (start_line rm))],
                     Inr True)
                | Some ids_str \<Rightarrow> nosem_loop K rm strict0 False (pattern_ids K ids_str))))"

section \<open>Example inputs\<close>

text \<open>
  An instance of the constants: a break line of eighty dashes, and for the two
  regular expressions an annotation \<open>nosem\<close> or \<open>nosemgrep\<close> after a blank, followed or
  not by a colon, an optional blank and the list of ids, which is split at commas
  and blanks.
\<close>

fun find_after :: "string \<Rightarrow> string \<Rightarrow> string option" where
  "find_after pat [] = (if pat = [] then Some [] else None)"
| "find_after pat (c # cs) =
     (if take (length pat) (c # cs) = pat then Some (drop (length pat) (c # cs))
      else find_after pat cs)"

definition nosem_search0 :: "string \<Rightarrow> string option option" where
  "nosem_search0 line =
     (case find_after '' nosem'' line of
        None \<Rightarrow> None
      | Some rest0 \<Rightarrow>
          (let rest = (if take 4 rest0 = ''grep'' then drop 4 rest0 else rest0) in
           case rest of
             [] \<Rightarrow> Some None
           | c # r \<Rightarrow>
               if c = CHR '':'' then
                 (let ids = (case r of [] \<Rightarrow> [] | d # r2 \<Rightarrow> if py_isspace d then r2 else r) in
                  case ids of
                    [] \<Rightarrow> Some None
                  | i # is \<Rightarrow> if i = CHR '','' \<or> py_isspace i then Some None else Some (Some ids))
               else Some None))"

fun split0 :: "string \<Rightarrow> string list" where
  "split0 [] = [[]]"
| "split0 (c # cs) =
     (if c = CHR '','' \<or> py_isspace c then [] # split0 cs
      else (case split0 cs of [] \<Rightarrow> [[c]] | p # ps \<Rightarrow> (c # p) # ps))"

definition K0 :: constants where
  "K0 = \<lparr>BREAK_LINE = replicate 80 CHR ''-'', BREAK_LINE_CHAR = CHR ''-'',
          BREAK_LINE_WIDTH = 80, CLI_RULE_ID = ''-'',
          MAX_LINES_FLAG_NAME = ''--max-lines-per-finding'',
          FINDINGS_EXIT_CODE = 1, FATAL_EXIT_CODE = 2, DEFAULT_LEVEL = ERROR,
          NOSEM_INLINE_RE = nosem_search0, COMMA_SEPARATED_LIST_RE = split0\<rparr>"

text \<open>Findings in \<open>a.py\<close>: of three lines, and two of one line with the same message.\<close>

definition rm0 :: rule_match where
  "rm0 = \<lparr>check_id = ''eqeq-is-bad'', path = ''a.py'', message = ''dangerous =='',
           severity = ''ERROR'', start_line = 3, start_col = 1, end_line = 5, end_col = 5,
           lines = [''x == x'', ''y == y  '', ''z == z''], fixed_lines = None,
           fix_text = None, fix_regex = None\<rparr>"

definition rm1 :: rule_match where
  "rm1 = rm0\<lparr>check_id := ''rule-a'', message := ''same message'', start_line := 1,
              end_line := 1, lines := [''a == a'']\<rparr>"

definition rm2 :: rule_match where
  "rm2 = rm0\<lparr>check_id := ''rule-b'', message := ''same message'', start_line := 2,
              end_line := 2, lines := [''b == b'']\<rparr>"


definition rm_listed :: rule_match where
  "rm_listed = rm0\<lparr>lines := [''x == x  # nosem: eqeq-is-bad, other-rule'']\<rparr>"

text \<open>
  A rule id with a letter that is not of ASCII, \<open>r\<close>, \<open>e\<close> with a grave accent (\<open>U+00E8\<close>),
  \<open>g\<close>, \<open>l\<close>, \<open>e\<close>; a finding of this rule whose annotation lists it; and a finding of
  another rule with the same annotation.
\<close>

definition regle :: string where
  "regle = [CHR ''r'', CHR 0xE8, CHR ''g'', CHR ''l'', CHR ''e'']"


definition rm_not_regle :: rule_match where
  "rm_not_regle = rm0\<lparr>lines := [''x == x  # nosem: '' @ regle]\<rparr>"

text \<open>Errors, serializers and a world in which every write succeeds.\<close>

definition err0 :: semgrep_error where
  "err0 = \<lparr>err_level = WARN, err_code = 3, err_msg = ''parse failure'',
            err_kind = OtherKind ''SourceParseError'' (Some ''a.py'') None\<rparr>"

definition err1 :: semgrep_error where
  "err1 = \<lparr>err_level = WARN, err_code = 2, err_msg = ''timeout'',
            err_kind = MatchTimeout ''a.py'' ''rule-a''\<rparr>"

definition X0 :: serializers where
  "X0 = \<lparr>rm_to_json = (\<lambda>rm. JObj [(''check_id'', JStr (check_id rm)), (''path'', JStr (path rm))]),
          rm_to_sarif = (\<lambda>rm. JObj [(''ruleId'', JStr (check_id rm))]),
          rm_to_junit_xml = (\<lambda>rm. JStr (check_id rm)),
          rule_to_sarif = (\<lambda>r. JObj [(''id'', JStr (rule_id r))]),
          err_to_dict = (\<lambda>e. [(''type'', JStr ''SemgrepError''),
                                 (''level'', JStr (if err_level e = ERROR then ''error'' else ''warn'')),
                                 (''message'', JStr (err_msg e))]),
          str_of_error = err_msg,
          make_target_stats = (\<lambda>ts. JInt (int (length ts))),
          make_loc_stats = (\<lambda>ts. JNull),
          to_xml_report_string = (\<lambda>suites. join newline (map fst suites)),
          json_dumps = (\<lambda>j. (case j of JObj kvs \<Rightarrow> join '','' (map fst kvs) | _ \<Rightarrow> [])),
          VERSION = ''0.0.0''\<rparr>"

definition w0 :: io where
  "w0 = \<lparr>stdout_isatty = False, stderr_isatty = False, FORCE_COLOR = False,
          stdout_encodes = (\<lambda>s. True),
          urlparse = (\<lambda>u. if take 7 u = ''http://'' then Some (''http'', drop 7 u)
                           else Some ([], [])),
          requests_post = (\<lambda>u d. Responded 200),
          is_absolute = (\<lambda>p. take 1 p = ''/''),
          base_path_joinpath = (\<lambda>p. ''/base/'' @ p),
          write_text = (\<lambda>p c. None)\<rparr>"

definition settings0 :: OutputSettings where
  "settings0 = \<lparr>output_format = TEXT, output_destination = None, error_on_findings = False,
                 verbose_errors = False, strict = False,
                 output_per_finding_max_lines_limit = None, json_stats = False,
                 json_time = False, timeout_threshold = 0\<rparr>"

definition core0 :: core_output where
  "core0 = \<lparr>co_rule_matches_by_rule =
               [(\<lparr>rule_id = ''rule-a'', rule_severity = ''ERROR'', rule_metadata = JNull\<rparr>, [rm1])],
             co_debug_steps_by_rule = [], co_stats_line = ''ran 1 rules on 1 files'',
             co_all_targets = [''a.py''], co_profiler = JNull, co_filtered_rules = [],
             co_match_time_matrix = (\<lambda>k. None)\<rparr>"

section \<open>Runs that accumulate, and example handlers\<close>

text \<open>
  The calls that hand the handler a finding, an error or statistics: a list of errors
  that is not empty, an error, the output of the engine, and an unhandled exception
  that is a structured error (it is handed to \<open>handle_semgrep_error\<close>).
\<close>

fun accumulates :: "call \<Rightarrow> bool" where
  "accumulates (Call_handle_semgrep_errors errors) = (errors \<noteq> [])"
| "accumulates (Call_handle_semgrep_error error) = True"
| "accumulates (Call_handle_semgrep_core_output out) = True"
| "accumulates (Call_handle_unhandled_exception ex) =
     (case ex of SemgrepError e \<Rightarrow> True | _ \<Rightarrow> False)"

text \<open>The collection of the errors and the set that guards it go together.\<close>

definition errors_consistent :: "OutputHandler \<Rightarrow> bool" where
  "errors_consistent self =
     (distinct (semgrep_structured_errors self)
      \<and> set (semgrep_structured_errors self) = error_set self)"


definition h_crashed :: OutputHandler where
  "h_crashed = snd (run_calls X0 w0 [Call_handle_unhandled_exception (OtherException ''KeyError'')]
                 (new_OutputHandler settings0))"

definition h_errors :: OutputHandler where
  "h_errors = snd (run_calls X0 w0 [Call_handle_semgrep_errors [err0, err1, err0, err1]]
                (new_OutputHandler settings0))"

text \<open>
  A handler after one run of the engine whose destination is a URL, and a world in
  which every POST times out.
\<close>

definition h_url :: OutputHandler where
  "h_url = snd (run_calls X0 w0 [Call_handle_semgrep_core_output core0]
             (new_OutputHandler (settings0\<lparr>output_destination := Some ''http://example.com/hook''\<rparr>)))"

definition w_timeout :: io where
  "w_timeout = w0\<lparr>requests_post := (\<lambda>u d. TimedOut)\<rparr>"


section \<open>The line renderer keeps to the limit\<close>

lemma length_render_lines: "length (render_lines rm c i ls) = length ls"
  by (induction ls arbitrary: i) simp_all

text \<open>
  Claim C5, as the code has it. For a finding with a path and a positive limit \<open>n\<close> of
  lines, the renderer yields the first \<open>n\<close> of the available lines (all of them when
  there are fewer), so at most \<open>n\<close> source lines, and at most one line after them. With
  \<open>n = 1\<close> nothing follows them. Otherwise, when there are more than \<open>n\<close> available
  lines, one marker follows, which reports the number of available lines minus \<open>n\<close> as
  hidden and is centered in the width of the break line with its fill character; when
  there are not, the break line follows if a separator was asked for.
\<close>

theorem finding_to_line_max_lines:
  assumes "path rm \<noteq> []" and "0 < n"
  shows "finding_to_line K rm color_output (Some n) show_separator =
           render_lines rm color_output 0 (take (nat n) (available_lines rm)) @
             (if n = 1 then []
              else if n < int (length (available_lines rm)) then
                [center (BREAK_LINE_WIDTH K) (BREAK_LINE_CHAR K)
                   ('' [hid '' @ str_int (int (length (available_lines rm)) - n)
                     @ '' additional lines, adjust with '' @ MAX_LINES_FLAG_NAME K @ ''] '')]
              else if show_separator then [BREAK_LINE K]
              else [])
         \<and> length (render_lines rm color_output 0 (take (nat n) (available_lines rm)))
             = min (nat n) (length (available_lines rm))
         \<and> int (length (render_lines rm color_output 0 (take (nat n) (available_lines rm)))) \<le> n
         \<and> int (length (finding_to_line K rm color_output (Some n) show_separator))
             \<le> (if n = 1 then 1 else n + 1)"
proof -
  let ?body = "render_lines rm color_output 0 (take (nat n) (available_lines rm))"
  have e: "finding_to_line K rm color_output (Some n) show_separator =
           render_lines rm color_output 0 (take (nat n) (available_lines rm)) @
             (if n = 1 then []
              else if n < int (length (available_lines rm)) then
                [center (BREAK_LINE_WIDTH K) (BREAK_LINE_CHAR K)
                   ('' [hid '' @ str_int (int (length (available_lines rm)) - n)
                     @ '' additional lines, adjust with '' @ MAX_LINES_FLAG_NAME K @ ''] '')]
              else if show_separator then [BREAK_LINE K]
              else [])"
    using assms by (simp add: finding_to_line_def py_take_def trimmed_str_def Let_def)
  have m: "length ?body = min (nat n) (length (available_lines rm))"
    by (simp add: length_render_lines min.commute)
  have b: "int (length ?body) \<le> n"
    using assms(2) by (simp add: length_render_lines)
  define rest where "rest =
             (if n = 1 then []
              else if n < int (length (available_lines rm)) then
                [center (BREAK_LINE_WIDTH K) (BREAK_LINE_CHAR K)
                   ('' [hid '' @ str_int (int (length (available_lines rm)) - n)
                     @ '' additional lines, adjust with '' @ MAX_LINES_FLAG_NAME K @ ''] '')]
              else if show_separator then [BREAK_LINE K]
              else [])"
  have r: "length rest \<le> 1" "n = 1 \<Longrightarrow> rest = []"
    by (simp_all add: rest_def)
  have "length (finding_to_line K rm color_output (Some n) show_separator)
          = length ?body + length rest"
    unfolding e rest_def by (simp only: length_append)
  with b r have t: "int (length (finding_to_line K rm color_output (Some n) show_separator))
             \<le> (if n = 1 then 1 else n + 1)"
    by (cases "n = 1") auto
  from e m b t show ?thesis by blast
qed

text \<open>Three available lines under a limit of two: two lines and the marker for one.\<close>

theorem finding_to_line_max_lines_witness:
  "path rm0 \<noteq> [] \<and> (0::int) < 2 \<and>
   finding_to_line K0 rm0 False (Some 2) False =
     [''3:x == x'', ''4:y == y'',
      ''-------- [hid 1 additional lines, adjust with --max-lines-per-finding] ---------'']"
proof -
  have p: "path rm0 \<noteq> []" by (simp add: rm0_def)
  have e: "render_lines rm0 False 0 (take (nat 2) (available_lines rm0)) @
             (if (2::int) = 1 then []
              else if 2 < int (length (available_lines rm0)) then
                [center (BREAK_LINE_WIDTH K0) (BREAK_LINE_CHAR K0)
                   ('' [hid '' @ str_int (int (length (available_lines rm0)) - 2)
                     @ '' additional lines, adjust with '' @ MAX_LINES_FLAG_NAME K0 @ ''] '')]
              else if False then [BREAK_LINE K0]
              else []) =
     [''3:x == x'', ''4:y == y'',
      ''-------- [hid 1 additional lines, adjust with --max-lines-per-finding] ---------'']"
    by code_simp
  show ?thesis
    using finding_to_line_max_lines [OF p, of 2 K0 False False] p e by simp
qed

text \<open>
  Under a limit of two the renderer yields three lines, the two source lines and the
  marker; and a limit of zero is no limit: all three source lines are yielded.
\<close>

theorem finding_to_line_max_lines_counterexample:
  "length (finding_to_line K0 rm0 False (Some 2) False) = 3 \<and>
   finding_to_line K0 rm0 False (Some 0) False = [''3:x == x'', ''4:y == y'', ''5:z == z'']"
  by code_simp

section \<open>The header of the rule in the text format\<close>

lemma normal_blocks_nth_Suc:
  "Suc i < length xs \<Longrightarrow>
   normal_blocks K c lim lf lm xs ! Suc i =
     normal_step K c lim (Some (path (xs ! i))) (Some (message (xs ! i))) (xs ! Suc i)
       (if Suc (Suc i) < length xs then Some (xs ! Suc (Suc i)) else None)"
proof (induction xs arbitrary: i lf lm)
  case Nil
  then show ?case by simp
next
  case (Cons x xs)
  show ?case
  proof (cases i)
    case 0
    with Cons.prems obtain y ys where xs: "xs = y # ys" by (cases xs) auto
    show ?thesis using 0 xs by (cases ys) simp_all
  next
    case (Suc j)
    with Cons.prems have "Suc j < length xs" by simp
    from Cons.IH [OF this] show ?thesis using Suc by simp
  qed
qed

lemma rule_header_normal_step:
  "rule_header (normal_step K c lim (Some p) (Some m) rm nxt) = [] \<longleftrightarrow>
     (check_id rm = [] \<or> check_id rm = CLI_RULE_ID K \<or> (path rm = p \<and> message rm = m))"
  by (auto simp: normal_step_def Let_def)

text \<open>
  Claim C8, as the code has it. For two consecutive findings of the sorted list with
  the same path, the header of the second is suppressed exactly when its rule id is
  empty or the id of a command-line pattern, or its message is the message of the
  first: the rule ids are not compared. In particular it is suppressed when rule id
  and message are both those of the first.
\<close>

theorem text_header_suppressed_iff:
  assumes "Suc i < length (sorted_rule_matches rule_matches0)"
    and "path (sorted_rule_matches rule_matches0 ! Suc i) = path (sorted_rule_matches rule_matches0 ! i)"
  shows "(rule_header (normal_blocks K color_output lim None None
            (sorted_rule_matches rule_matches0) ! Suc i) = [] \<longleftrightarrow>
          (check_id (sorted_rule_matches rule_matches0 ! Suc i) = []
           \<or> check_id (sorted_rule_matches rule_matches0 ! Suc i) = CLI_RULE_ID K
           \<or> message (sorted_rule_matches rule_matches0 ! Suc i)
               = message (sorted_rule_matches rule_matches0 ! i)))
       \<and> (check_id (sorted_rule_matches rule_matches0 ! Suc i)
             = check_id (sorted_rule_matches rule_matches0 ! i)
           \<and> message (sorted_rule_matches rule_matches0 ! Suc i)
             = message (sorted_rule_matches rule_matches0 ! i) \<longrightarrow>
           rule_header (normal_blocks K color_output lim None None
             (sorted_rule_matches rule_matches0) ! Suc i) = [])"
  using assms
  by (simp add: normal_blocks_nth_Suc rule_header_normal_step del: normal_blocks.simps)

lemma sorted_rm21: "sorted_rule_matches [rm2, rm1] = [rm1, rm2]"
  by (simp add: sorted_rule_matches_def rm1_def rm2_def rm0_def)

theorem text_header_suppressed_iff_witness:
  "Suc 0 < length (sorted_rule_matches [rm2, rm1]) \<and>
   path (sorted_rule_matches [rm2, rm1] ! Suc 0) = path (sorted_rule_matches [rm2, rm1] ! 0) \<and>
   message (sorted_rule_matches [rm2, rm1] ! Suc 0) = message (sorted_rule_matches [rm2, rm1] ! 0) \<and>
   rule_header (normal_blocks K0 False None None None (sorted_rule_matches [rm2, rm1]) ! Suc 0) = []"
proof -
  have a: "Suc 0 < length (sorted_rule_matches [rm2, rm1])" by (simp add: sorted_rm21)
  have b: "path (sorted_rule_matches [rm2, rm1] ! Suc 0) = path (sorted_rule_matches [rm2, rm1] ! 0)"
    unfolding sorted_rm21 by (simp add: rm1_def rm2_def)
  have c: "message (sorted_rule_matches [rm2, rm1] ! Suc 0) = message (sorted_rule_matches [rm2, rm1] ! 0)"
    unfolding sorted_rm21 by (simp add: rm1_def rm2_def)
  show ?thesis
    using text_header_suppressed_iff [OF a b, of K0 False None] a b c by simp
qed

text \<open>
  Two findings in \<open>a.py\<close> of the rules \<open>rule-a\<close> and \<open>rule-b\<close> with the same message: the
  header of the second is suppressed although the rule ids differ, and the report shows
  the header of \<open>rule-a\<close> alone.
\<close>

theorem text_header_counterexample:
  "path (sorted_rule_matches [rm2, rm1] ! 1) = path (sorted_rule_matches [rm2, rm1] ! 0) \<and>
   check_id (sorted_rule_matches [rm2, rm1] ! 1) \<noteq> check_id (sorted_rule_matches [rm2, rm1] ! 0) \<and>
   rule_header (normal_blocks K0 False None None None (sorted_rule_matches [rm2, rm1]) ! 1) = [] \<and>
   build_normal_output K0 [rm2, rm1] False None =
     [''a.py'', ''severity:error rule:rule-a: same message'', ''1:a == a'',
      ''--------------------------------------------------------------------------------'',
      ''2:b == b'']"
  by code_simp

section \<open>What the suppression filter returns and when it raises\<close>

lemma nosem_loop_raises:
  "\<exists>p\<in>set ids. p \<noteq> check_id rm \<Longrightarrow>
   \<exists>e. snd (nosem_loop K rm True result ids) = Inl (SemgrepError e)"
proof (induction ids arbitrary: result)
  case Nil
  then show ?case by simp
next
  case (Cons p ids)
  show ?case
  proof (cases "check_id rm = p")
    case True
    with Cons.prems have "\<exists>q\<in>set ids. q \<noteq> check_id rm" by auto
    from Cons.IH [OF this, of "result \<or> True"] show ?thesis
      using True by (auto simp: split_beta)
  next
    case False
    then show ?thesis by simp
  qed
qed






lemma nosem_listed_line: "NOSEM_INLINE_RE K0 ''x == x  # nosem: eqeq-is-bad, other-rule''
   = Some (Some ''eqeq-is-bad, other-rule'')"
  by code_simp

lemma nosem_listed_ids: "pattern_ids K0 ''eqeq-is-bad, other-rule'' = [''eqeq-is-bad'', ''other-rule'']"
  by code_simp


lemma nosem_regle_line:
  "NOSEM_INLINE_RE K0 (''x == x  # nosem: '' @ regle) = Some (Some regle)"
  by code_simp

lemma nosem_regle_ids: "pattern_ids K0 regle = [regle]"
  by code_simp



text \<open>
  Claim C10. In strict mode, when the annotation of the first line lists an id that
  passes the filter and is not the rule id of the finding, the check raises a
  structured error, also when the rule id of the finding is listed as well; it does
  not return that the finding is suppressed.
\<close>

theorem rule_match_nosem_strict_raises:
  assumes "lines rm = l # ls"
    and "NOSEM_INLINE_RE K l = Some (Some ids_str)"
    and "p \<in> set (pattern_ids K ids_str)"
    and "p \<noteq> check_id rm"
  shows "(\<exists>e. snd (rule_match_nosem K rm True) = Inl (SemgrepError e))
         \<and> snd (rule_match_nosem K rm True) \<noteq> Inr True"
proof -
  from assms(1,2) have r: "rule_match_nosem K rm True = nosem_loop K rm True False (pattern_ids K ids_str)"
    by (simp add: rule_match_nosem_def)
  from assms(3,4) have "\<exists>q\<in>set (pattern_ids K ids_str). q \<noteq> check_id rm" by blast
  from nosem_loop_raises [OF this, of K False] show ?thesis
    using r by auto
qed

text \<open>
  The list names the rule of the finding and another rule: the check raises. So it
  does when the one id listed is that of another rule and has a letter beyond ASCII.
\<close>

theorem rule_match_nosem_strict_raises_witness:
  "check_id rm_listed \<in> set (pattern_ids K0 ''eqeq-is-bad, other-rule'') \<and>
   ''other-rule'' \<in> set (pattern_ids K0 ''eqeq-is-bad, other-rule'') \<and>
   (\<exists>e. snd (rule_match_nosem K0 rm_listed True) = Inl (SemgrepError e)) \<and>
   regle \<in> set (pattern_ids K0 regle) \<and>
   (\<exists>e. snd (rule_match_nosem K0 rm_not_regle True) = Inl (SemgrepError e))"
proof -
  have l2: "lines rm_not_regle = (''x == x  # nosem: '' @ regle) # []"
    by (simp add: rm_not_regle_def)
  have m2: "regle \<in> set (pattern_ids K0 regle)" by (simp add: nosem_regle_ids)
  have n2: "regle \<noteq> check_id rm_not_regle" by code_simp
  have r2: "\<exists>e. snd (rule_match_nosem K0 rm_not_regle True) = Inl (SemgrepError e)"
    using rule_match_nosem_strict_raises [OF l2 nosem_regle_line m2 n2] by blast
  have l: "lines rm_listed = ''x == x  # nosem: eqeq-is-bad, other-rule'' # []"
    by (simp add: rm_listed_def)
  have c: "check_id rm_listed = ''eqeq-is-bad''" by (simp add: rm_listed_def rm0_def)
  have m: "''other-rule'' \<in> set (pattern_ids K0 ''eqeq-is-bad, other-rule'')"
    by (simp add: nosem_listed_ids)
  have n: "''other-rule'' \<noteq> check_id rm_listed" by (simp add: c)
  show ?thesis
    using rule_match_nosem_strict_raises [OF l nosem_listed_line m n] c nosem_listed_ids m2 r2
    by simp
qed

section \<open>The errors of the handler are kept once\<close>

lemma handle_semgrep_error_consistent:
  assumes "errors_consistent self"
  shows "errors_consistent (snd (handle_semgrep_error X e self))"
    and "set (semgrep_structured_errors (snd (handle_semgrep_error X e self)))
           = insert e (set (semgrep_structured_errors self))"
  using assms by (auto simp: handle_semgrep_error_def errors_consistent_def Let_def)

lemma handle_semgrep_errors_loop_consistent:
  "errors_consistent self \<Longrightarrow>
   errors_consistent (snd (snd (handle_semgrep_errors_loop X errs tmo self)))
   \<and> set (semgrep_structured_errors (snd (snd (handle_semgrep_errors_loop X errs tmo self))))
       = set errs \<union> set (semgrep_structured_errors self)"
proof (induction errs arbitrary: tmo self)
  case Nil
  then show ?case by simp
next
  case (Cons err errs)
  show ?case
  proof (cases "is_MatchTimeoutError err \<and> err \<notin> error_set self")
    case True
    let ?s = "self\<lparr>semgrep_structured_errors := semgrep_structured_errors self @ [err],
                     error_set := insert err (error_set self)\<rparr>"
    from Cons.prems True have "errors_consistent ?s"
      by (auto simp: errors_consistent_def)
    from Cons.IH [OF this] show ?thesis using True by auto
  next
    case False
    let ?s = "snd (handle_semgrep_error X err self)"
    from handle_semgrep_error_consistent [OF Cons.prems, of X err]
    have c: "errors_consistent ?s"
      and s: "set (semgrep_structured_errors ?s) = insert err (set (semgrep_structured_errors self))"
      by simp_all
    from Cons.IH [OF c] show ?thesis using False s by (auto simp: split_beta Let_def)
  qed
qed

lemma handle_semgrep_timeout_errors_errors:
  "semgrep_structured_errors (snd (handle_semgrep_timeout_errors w tmo self))
     = semgrep_structured_errors self
   \<and> error_set (snd (handle_semgrep_timeout_errors w tmo self)) = error_set self"
  by (simp add: handle_semgrep_timeout_errors_def Let_def)

lemma handle_semgrep_errors_consistent:
  assumes "errors_consistent self"
  shows "errors_consistent (snd (handle_semgrep_errors X w errs self))
   \<and> set (semgrep_structured_errors (snd (handle_semgrep_errors X w errs self)))
       = set errs \<union> set (semgrep_structured_errors self)"
  using handle_semgrep_errors_loop_consistent [OF assms, of X errs "[]"]
    handle_semgrep_timeout_errors_errors
  by (auto simp: handle_semgrep_errors_def split_beta Let_def errors_consistent_def)

lemma run_call_consistent:
  assumes "errors_consistent self"
  shows "errors_consistent (snd (run_call X w c self))
   \<and> set (semgrep_structured_errors self) \<subseteq> set (semgrep_structured_errors (snd (run_call X w c self)))
   \<and> (\<forall>errs. c = Call_handle_semgrep_errors errs \<longrightarrow>
         set errs \<subseteq> set (semgrep_structured_errors (snd (run_call X w c self))))
   \<and> (\<forall>e. c = Call_handle_semgrep_error e \<longrightarrow>
         e \<in> set (semgrep_structured_errors (snd (run_call X w c self))))"
proof (cases c)
  case (Call_handle_semgrep_errors errs)
  then show ?thesis using handle_semgrep_errors_consistent [OF assms, of X w errs] by auto
next
  case (Call_handle_semgrep_error e)
  then show ?thesis using handle_semgrep_error_consistent [OF assms, of X e] by auto
next
  case (Call_handle_semgrep_core_output out)
  then show ?thesis using assms
    by (simp add: handle_semgrep_core_output_def errors_consistent_def)
next
  case (Call_handle_unhandled_exception ex)
  show ?thesis
  proof (cases ex)
    case (SemgrepError e)
    then show ?thesis
      using Call_handle_unhandled_exception handle_semgrep_error_consistent [OF assms, of X e]
      by (auto simp: handle_unhandled_exception_def split_beta errors_consistent_def)
  qed (use Call_handle_unhandled_exception assms in
        \<open>auto simp: handle_unhandled_exception_def errors_consistent_def\<close>)
qed

lemma run_calls_consistent:
  "errors_consistent self \<Longrightarrow>
   errors_consistent (snd (run_calls X w cs self))
   \<and> set (semgrep_structured_errors self) \<subseteq> set (semgrep_structured_errors (snd (run_calls X w cs self)))
   \<and> (\<forall>errs. Call_handle_semgrep_errors errs \<in> set cs \<longrightarrow>
         set errs \<subseteq> set (semgrep_structured_errors (snd (run_calls X w cs self))))
   \<and> (\<forall>e. Call_handle_semgrep_error e \<in> set cs \<longrightarrow>
         e \<in> set (semgrep_structured_errors (snd (run_calls X w cs self))))"
proof (induction cs arbitrary: self)
  case Nil
  then show ?case by simp
next
  case (Cons c cs)
  let ?s = "snd (run_call X w c self)"
  from run_call_consistent [OF Cons.prems, of X w c]
  have c: "errors_consistent ?s"
    and m: "set (semgrep_structured_errors self) \<subseteq> set (semgrep_structured_errors ?s)"
    and a: "\<forall>errs. c = Call_handle_semgrep_errors errs \<longrightarrow> set errs \<subseteq> set (semgrep_structured_errors ?s)"
    and b: "\<forall>e. c = Call_handle_semgrep_error e \<longrightarrow> e \<in> set (semgrep_structured_errors ?s)"
    by blast+
  from Cons.IH [OF c]
  have c': "errors_consistent (snd (run_calls X w cs ?s))"
    and m': "set (semgrep_structured_errors ?s) \<subseteq> set (semgrep_structured_errors (snd (run_calls X w cs ?s)))"
    and a': "\<forall>errs. Call_handle_semgrep_errors errs \<in> set cs \<longrightarrow>
         set errs \<subseteq> set (semgrep_structured_errors (snd (run_calls X w cs ?s)))"
    and b': "\<forall>e. Call_handle_semgrep_error e \<in> set cs \<longrightarrow>
         e \<in> set (semgrep_structured_errors (snd (run_calls X w cs ?s)))"
    by blast+
  have r: "snd (run_calls X w (c # cs) self) = snd (run_calls X w cs ?s)"
    by (simp add: split_beta)
  show ?case unfolding r
  proof (intro conjI allI impI)
    show "errors_consistent (snd (run_calls X w cs ?s))" by (rule c')
    show "set (semgrep_structured_errors self)
            \<subseteq> set (semgrep_structured_errors (snd (run_calls X w cs ?s)))"
      using m m' by blast
  next
    fix errs
    assume "Call_handle_semgrep_errors errs \<in> set (c # cs)"
    then consider "c = Call_handle_semgrep_errors errs" | "Call_handle_semgrep_errors errs \<in> set cs"
      by auto
    then show "set errs \<subseteq> set (semgrep_structured_errors (snd (run_calls X w cs ?s)))"
      using a a' m' by cases blast+
  next
    fix e
    assume "Call_handle_semgrep_error e \<in> set (c # cs)"
    then consider "c = Call_handle_semgrep_error e" | "Call_handle_semgrep_error e \<in> set cs"
      by auto
    then show "e \<in> set (semgrep_structured_errors (snd (run_calls X w cs ?s)))"
      using b b' m' by cases blast+
  qed
qed

lemma count_list_distinct: "distinct xs \<Longrightarrow> x \<in> set xs \<Longrightarrow> count_list xs x = 1"
  by (induction xs) auto

lemma new_OutputHandler_consistent: "errors_consistent (new_OutputHandler st)"
  by (simp add: errors_consistent_def new_OutputHandler_def)

text \<open>
  Claim C6. After any run of calls on a new handler, no error is twice in the
  collection of the structured errors, and every error of every list handed to
  \<open>handle_semgrep_errors\<close>, and every error handed to \<open>handle_semgrep_error\<close>, is in it
  exactly once, however often it was handed over.
\<close>

theorem structured_errors_kept_once:
  "distinct (semgrep_structured_errors (snd (run_calls X w cs (new_OutputHandler st))))
   \<and> (\<forall>errs e. Call_handle_semgrep_errors errs \<in> set cs \<and> e \<in> set errs \<longrightarrow>
         count_list (semgrep_structured_errors (snd (run_calls X w cs (new_OutputHandler st)))) e = 1)
   \<and> (\<forall>e. Call_handle_semgrep_error e \<in> set cs \<longrightarrow>
         count_list (semgrep_structured_errors (snd (run_calls X w cs (new_OutputHandler st)))) e = 1)"
proof -
  let ?s = "snd (run_calls X w cs (new_OutputHandler st))"
  from run_calls_consistent [OF new_OutputHandler_consistent, of X w cs st]
  have d: "distinct (semgrep_structured_errors ?s)"
    and a: "\<forall>errs. Call_handle_semgrep_errors errs \<in> set cs \<longrightarrow>
              set errs \<subseteq> set (semgrep_structured_errors ?s)"
    and b: "\<forall>e. Call_handle_semgrep_error e \<in> set cs \<longrightarrow> e \<in> set (semgrep_structured_errors ?s)"
    by (auto simp: errors_consistent_def)
  show ?thesis
  proof (intro conjI allI impI)
    show "distinct (semgrep_structured_errors ?s)" by (rule d)
  next
    fix errs e
    assume "Call_handle_semgrep_errors errs \<in> set cs \<and> e \<in> set errs"
    with a have "e \<in> set (semgrep_structured_errors ?s)" by blast
    with d show "count_list (semgrep_structured_errors ?s) e = 1" by (rule count_list_distinct)
  next
    fix e
    assume "Call_handle_semgrep_error e \<in> set cs"
    with b have "e \<in> set (semgrep_structured_errors ?s)" by blast
    with d show "count_list (semgrep_structured_errors ?s) e = 1" by (rule count_list_distinct)
  qed
qed

text \<open>A list with a timeout error and another error, each twice: each is kept once.\<close>

theorem structured_errors_kept_once_witness:
  "semgrep_structured_errors h_errors = [err0, err1] \<and>
   count_list (semgrep_structured_errors h_errors) err0 = 1 \<and>
   count_list (semgrep_structured_errors h_errors) err1 = 1"
proof -
  have e: "semgrep_structured_errors h_errors = [err0, err1]"
    by code_simp
  have "Call_handle_semgrep_errors [err0, err1, err0, err1]
          \<in> set [Call_handle_semgrep_errors [err0, err1, err0, err1]]" by simp
  with structured_errors_kept_once [of X0 w0 "[Call_handle_semgrep_errors [err0, err1, err0, err1]]" settings0]
  have "count_list (semgrep_structured_errors h_errors) err0 = 1
        \<and> count_list (semgrep_structured_errors h_errors) err1 = 1"
    unfolding h_errors_def by auto
  with e show ?thesis by simp
qed

section \<open>The outcome of closing the handler\<close>

lemma build_output_triple:
  "build_output K X self c lim = ([], fst (snd (build_output K X self c lim)), self)"
  by (simp add: build_output_def Let_def)

lemma close_output_self: "snd (snd (close_output K X w self)) = self"
proof -
  obtain r where b: "build_output K X self
              (output_destination (settings self) = None \<and> stdout_isatty w)
              (output_per_finding_max_lines_limit (settings self)) = ([], r, self)"
    using build_output_triple by blast
  show ?thesis
    unfolding close_output_def b
    by (cases r) (simp_all add: Let_def split_beta)
qed

lemma close_after_output:
  assumes "(if has_output self then close_output K X w self else ([], None, self)) = (evs, None, s)"
  shows "close K X w self =
           (evs @ fst (final_raise self (fst (close_final_error K self)) (snd (close_final_error K self))),
            snd (final_raise self (fst (close_final_error K self)) (snd (close_final_error K self))),
            self)"
proof -
  have "s = self"
    using assms close_output_self [of K X w self] by (cases "has_output self") auto
  with assms show ?thesis
    unfolding close_def by (simp add: split_beta)
qed

lemma close_raised:
  assumes "fst (snd (if has_output self then close_output K X w self else ([], None, self))) = None"
  shows "fst (snd (close K X w self))
     = snd (final_raise self (fst (close_final_error K self)) (snd (close_final_error K self)))"
proof -
  obtain evs s where
    "(if has_output self then close_output K X w self else ([], None, self)) = (evs, None, s)"
    using assms
    by (cases "if has_output self then close_output K X w self else ([], None, self)") auto
  from close_after_output [OF this] show ?thesis by simp
qed

text \<open>
  Claim C7. A cause that is not a structured error is raised; a structured error is
  raised when its level is ERROR, or its level is WARN and strict mode is on; a
  structured error at level WARN with strict mode off is not raised, and a hint is
  logged. When rendering the report and delivering it raised nothing, this is what
  \<open>close\<close> raises for the cause it came to.
\<close>

theorem final_raise_cases:
  "snd (final_raise self (Some ex) error_stats) =
     (if (\<forall>e. ex \<noteq> SemgrepError e)
         \<or> (\<exists>e. ex = SemgrepError e
                \<and> (err_level e = ERROR \<or> (err_level e = WARN \<and> strict (settings self))))
      then Some ex else None)
   \<and> (\<forall>e. ex = SemgrepError e \<and> err_level e = WARN \<and> \<not> strict (settings self) \<longrightarrow>
         final_raise self (Some ex) error_stats =
           ([LogInfo (str_opt error_stats
              @ ''; run with --verbose for details or run with --strict to exit non-zero if any file cannot be analyzed'')],
            None))
   \<and> (fst (snd (if has_output self then close_output K X w self else ([], None, self))) = None \<longrightarrow>
         fst (snd (close K X w self))
           = snd (final_raise self (fst (close_final_error K self)) (snd (close_final_error K self))))"
proof (intro conjI allI impI)
  show "snd (final_raise self (Some ex) error_stats) =
     (if (\<forall>e. ex \<noteq> SemgrepError e)
         \<or> (\<exists>e. ex = SemgrepError e
                \<and> (err_level e = ERROR \<or> (err_level e = WARN \<and> strict (settings self))))
      then Some ex else None)"
  proof (cases ex)
    case (SemgrepError e)
    then show ?thesis by (cases "err_level e") (simp_all add: final_raise_def)
  qed (simp_all add: final_raise_def)
next
  fix e
  assume "ex = SemgrepError e \<and> err_level e = WARN \<and> \<not> strict (settings self)"
  then show "final_raise self (Some ex) error_stats =
           ([LogInfo (str_opt error_stats
              @ ''; run with --verbose for details or run with --strict to exit non-zero if any file cannot be analyzed'')],
            None)"
    by (simp add: final_raise_def)
next
  assume "fst (snd (if has_output self then close_output K X w self else ([], None, self))) = None"
  then show "fst (snd (close K X w self))
           = snd (final_raise self (fst (close_final_error K self)) (snd (close_final_error K self)))"
    by (rule close_raised)
qed

text \<open>
  After two errors at level WARN and no finding, with strict mode off: the cause is
  the last error, and \<open>close\<close> logs the hint and raises nothing.
\<close>

theorem final_raise_cases_witness:
  "fst (close_final_error K0 h_errors) = Some (SemgrepError err1) \<and>
   err_level err1 = WARN \<and> \<not> strict (settings h_errors) \<and>
   fst (snd (close K0 X0 w0 h_errors)) = None \<and>
   snd (final_raise h_errors (Some (SemgrepError err1))
          (Some ''2 files could not be analyzed'')) = None"
proof -
  have c: "close_final_error K0 h_errors
             = (Some (SemgrepError err1), Some ''2 files could not be analyzed'')"
    by code_simp
  have l: "err_level err1 = WARN" by (simp add: err1_def)
  have s: "\<not> strict (settings h_errors)" by code_simp
  have o: "fst (snd (if has_output h_errors then close_output K0 X0 w0 h_errors
                     else ([], None, h_errors))) = None"
    by code_simp
  from final_raise_cases [of h_errors "SemgrepError err1" "Some ''2 files could not be analyzed''" K0 X0 w0]
    l s o c
  show ?thesis by auto
qed

text \<open>
  Claim C1, as the code has it. \<open>close\<close> first renders and delivers the report when
  the handler has output; what this raises, \<open>close\<close> raises, and no cause is
  determined. When it raises nothing, the cause is the final error recorded by
  \<open>handle_unhandled_exception\<close> when there is one; otherwise, when there are findings
  and errors on findings are asked for, a structured error with an empty message and
  the exit code of findings; otherwise, when structured errors were accumulated, the
  last of them, with the statistics that so many files could not be analyzed, their
  number being the number of the errors; and \<open>close\<close> ends as \<open>final_raise\<close> does on
  this cause. When none of the three applies there is no cause and \<open>close\<close> raises
  nothing.
\<close>

theorem close_final_error_priority:
  "final_error (snd (handle_unhandled_exception X ex self0)) = Some ex
   \<and> fst (close_final_error K self) =
       (case final_error self of
          Some x \<Rightarrow> Some x
        | None \<Rightarrow>
            if rule_matches self \<noteq> [] \<and> error_on_findings (settings self) then
              Some (SemgrepError \<lparr>err_level = DEFAULT_LEVEL K, err_code = FINDINGS_EXIT_CODE K,
                                   err_msg = [], err_kind = OtherKind ''SemgrepError'' None None\<rparr>)
            else if semgrep_structured_errors self \<noteq> [] then
              Some (SemgrepError (last (semgrep_structured_errors self)))
            else None)
   \<and> snd (close_final_error K self) =
       (if final_error self = None
           \<and> (rule_matches self = [] \<or> \<not> error_on_findings (settings self))
           \<and> semgrep_structured_errors self \<noteq> []
        then Some (str_int (int (length (semgrep_structured_errors self)))
                   @ '' files could not be analyzed'')
        else None)
   \<and> (\<forall>evs e s.
         (if has_output self then close_output K X w self else ([], None, self)) = (evs, Some e, s) \<longrightarrow>
         close K X w self = (evs, Some e, s))
   \<and> (\<forall>evs s.
         (if has_output self then close_output K X w self else ([], None, self)) = (evs, None, s) \<longrightarrow>
         close K X w self =
           (evs @ fst (final_raise self
                    (case final_error self of
                       Some x \<Rightarrow> Some x
                     | None \<Rightarrow>
                         if rule_matches self \<noteq> [] \<and> error_on_findings (settings self) then
                           Some (SemgrepError \<lparr>err_level = DEFAULT_LEVEL K,
                                   err_code = FINDINGS_EXIT_CODE K, err_msg = [],
                                   err_kind = OtherKind ''SemgrepError'' None None\<rparr>)
                         else if semgrep_structured_errors self \<noteq> [] then
                           Some (SemgrepError (last (semgrep_structured_errors self)))
                         else None)
                    (snd (close_final_error K self))),
            snd (final_raise self
                    (case final_error self of
                       Some x \<Rightarrow> Some x
                     | None \<Rightarrow>
                         if rule_matches self \<noteq> [] \<and> error_on_findings (settings self) then
                           Some (SemgrepError \<lparr>err_level = DEFAULT_LEVEL K,
                                   err_code = FINDINGS_EXIT_CODE K, err_msg = [],
                                   err_kind = OtherKind ''SemgrepError'' None None\<rparr>)
                         else if semgrep_structured_errors self \<noteq> [] then
                           Some (SemgrepError (last (semgrep_structured_errors self)))
                         else None)
                    (snd (close_final_error K self))),
            self)
         \<and> (final_error self = None
              \<and> (rule_matches self = [] \<or> \<not> error_on_findings (settings self))
              \<and> semgrep_structured_errors self = [] \<longrightarrow>
              close K X w self = (evs, None, self)))"
proof -
  have c: "fst (close_final_error K self) =
       (case final_error self of
          Some x \<Rightarrow> Some x
        | None \<Rightarrow>
            if rule_matches self \<noteq> [] \<and> error_on_findings (settings self) then
              Some (SemgrepError \<lparr>err_level = DEFAULT_LEVEL K, err_code = FINDINGS_EXIT_CODE K,
                                   err_msg = [], err_kind = OtherKind ''SemgrepError'' None None\<rparr>)
            else if semgrep_structured_errors self \<noteq> [] then
              Some (SemgrepError (last (semgrep_structured_errors self)))
            else None)"
    by (auto simp: close_final_error_def new_SemgrepError_def split: option.splits)
  have t: "snd (close_final_error K self) =
       (if final_error self = None
           \<and> (rule_matches self = [] \<or> \<not> error_on_findings (settings self))
           \<and> semgrep_structured_errors self \<noteq> []
        then Some (str_int (int (length (semgrep_structured_errors self)))
                   @ '' files could not be analyzed'')
        else None)"
    by (auto simp: close_final_error_def)
  have h: "final_error (snd (handle_unhandled_exception X ex self0)) = Some ex"
    by (simp add: handle_unhandled_exception_def split_beta)
  have r: "\<forall>evs e s.
         (if has_output self then close_output K X w self else ([], None, self)) = (evs, Some e, s) \<longrightarrow>
         close K X w self = (evs, Some e, s)"
    unfolding close_def by (simp add: split_beta)
  have n: "\<forall>evs s.
         (if has_output self then close_output K X w self else ([], None, self)) = (evs, None, s) \<longrightarrow>
         close K X w self =
           (evs @ fst (final_raise self (fst (close_final_error K self)) (snd (close_final_error K self))),
            snd (final_raise self (fst (close_final_error K self)) (snd (close_final_error K self))),
            self)
         \<and> (final_error self = None
              \<and> (rule_matches self = [] \<or> \<not> error_on_findings (settings self))
              \<and> semgrep_structured_errors self = [] \<longrightarrow>
              close K X w self = (evs, None, self))"
  proof (intro allI impI)
    fix evs s
    assume a: "(if has_output self then close_output K X w self else ([], None, self)) = (evs, None, s)"
    have 1: "close K X w self =
           (evs @ fst (final_raise self (fst (close_final_error K self)) (snd (close_final_error K self))),
            snd (final_raise self (fst (close_final_error K self)) (snd (close_final_error K self))),
            self)"
      by (rule close_after_output [OF a])
    have 2: "final_error self = None
              \<and> (rule_matches self = [] \<or> \<not> error_on_findings (settings self))
              \<and> semgrep_structured_errors self = [] \<longrightarrow>
              close K X w self = (evs, None, self)"
    proof
      assume b: "final_error self = None
              \<and> (rule_matches self = [] \<or> \<not> error_on_findings (settings self))
              \<and> semgrep_structured_errors self = []"
      then have "close_final_error K self = (None, None)"
        by (auto simp: close_final_error_def)
      with 1 show "close K X w self = (evs, None, self)"
        by (simp add: final_raise_def)
    qed
    from 1 2 show "close K X w self =
           (evs @ fst (final_raise self (fst (close_final_error K self)) (snd (close_final_error K self))),
            snd (final_raise self (fst (close_final_error K self)) (snd (close_final_error K self))),
            self)
         \<and> (final_error self = None
              \<and> (rule_matches self = [] \<or> \<not> error_on_findings (settings self))
              \<and> semgrep_structured_errors self = [] \<longrightarrow>
              close K X w self = (evs, None, self))"
      by (rule conjI)
  qed
  from h c t r n [unfolded c] show ?thesis by (intro conjI)
qed

lemma h_errors_output:
  "(if has_output h_errors then close_output K0 X0 w0 h_errors else ([], None, h_errors))
     = ([Render TEXT], None, h_errors)"
proof -
  have 1: "has_output h_errors" by code_simp
  have 2: "fst (close_output K0 X0 w0 h_errors) = [Render TEXT]" by code_simp
  have 3: "fst (snd (close_output K0 X0 w0 h_errors)) = None" by code_simp
  have 4: "snd (snd (close_output K0 X0 w0 h_errors)) = h_errors" by (rule close_output_self)
  from 1 2 3 4 show ?thesis by (simp add: prod_eq_iff)
qed

text \<open>
  Two accumulated errors at level WARN and nothing else, with strict mode off: the
  report is rendered, the cause is the last error with the statistics for two files,
  and \<open>close\<close> logs the hint with these statistics and raises nothing.
\<close>

theorem close_final_error_priority_witness:
  "final_error h_errors = None \<and> rule_matches h_errors = [] \<and>
   semgrep_structured_errors h_errors = [err0, err1] \<and>
   close_final_error K0 h_errors
     = (Some (SemgrepError err1), Some ''2 files could not be analyzed'') \<and>
   close K0 X0 w0 h_errors =
     ([Render TEXT,
       LogInfo ''2 files could not be analyzed; run with --verbose for details or run with --strict to exit non-zero if any file cannot be analyzed''],
      None, h_errors)"
proof -
  have f: "final_error h_errors = None" by code_simp
  have r: "rule_matches h_errors = []" by code_simp
  have e: "semgrep_structured_errors h_errors = [err0, err1]" by code_simp
  have n: "str_int 2 = ''2''" by code_simp
  have s: "\<not> strict (settings h_errors)" by code_simp
  have l: "err_level err1 = WARN" by (simp add: err1_def)
  note p = close_final_error_priority [of X0 "OtherException ''x''" h_errors K0 h_errors w0]
  from p f r e n
  have c: "fst (close_final_error K0 h_errors) = Some (SemgrepError err1)"
    and t: "snd (close_final_error K0 h_errors) = Some ''2 files could not be analyzed''"
    by simp_all
  from p h_errors_output
  have "close K0 X0 w0 h_errors =
           ([Render TEXT] @ fst (final_raise h_errors
                    (case final_error h_errors of
                       Some x \<Rightarrow> Some x
                     | None \<Rightarrow>
                         if rule_matches h_errors \<noteq> [] \<and> error_on_findings (settings h_errors) then
                           Some (SemgrepError \<lparr>err_level = DEFAULT_LEVEL K0,
                                   err_code = FINDINGS_EXIT_CODE K0, err_msg = [],
                                   err_kind = OtherKind ''SemgrepError'' None None\<rparr>)
                         else if semgrep_structured_errors h_errors \<noteq> [] then
                           Some (SemgrepError (last (semgrep_structured_errors h_errors)))
                         else None)
                    (snd (close_final_error K0 h_errors))),
            snd (final_raise h_errors
                    (case final_error h_errors of
                       Some x \<Rightarrow> Some x
                     | None \<Rightarrow>
                         if rule_matches h_errors \<noteq> [] \<and> error_on_findings (settings h_errors) then
                           Some (SemgrepError \<lparr>err_level = DEFAULT_LEVEL K0,
                                   err_code = FINDINGS_EXIT_CODE K0, err_msg = [],
                                   err_kind = OtherKind ''SemgrepError'' None None\<rparr>)
                         else if semgrep_structured_errors h_errors \<noteq> [] then
                           Some (SemgrepError (last (semgrep_structured_errors h_errors)))
                         else None)
                    (snd (close_final_error K0 h_errors))),
            h_errors)"
    by blast
  then have "close K0 X0 w0 h_errors =
     ([Render TEXT,
       LogInfo ''2 files could not be analyzed; run with --verbose for details or run with --strict to exit non-zero if any file cannot be analyzed''],
      None, h_errors)"
    using f r e t s l by (simp add: final_raise_def str_opt_def)
  with f r e c t show ?thesis by (simp add: prod_eq_iff)
qed

text \<open>
  One finding, no error, no recorded final error and errors on findings not asked
  for, so that none of the three cases applies; the destination is a URL and the POST
  times out: \<open>close\<close> raises the structured error of the timeout.
\<close>

theorem close_final_error_priority_counterexample:
  "final_error h_url = None \<and> \<not> error_on_findings (settings h_url) \<and>
   semgrep_structured_errors h_url = [] \<and>
   close_final_error K0 h_url = (None, None) \<and>
   fst (snd (close K0 X0 w_timeout h_url)) =
     Some (SemgrepError
       \<lparr>err_level = ERROR, err_code = 2,
        err_msg = ''posting output to http://example.com/hook timed out'',
        err_kind = OtherKind ''SemgrepError'' None None\<rparr>)"
  by code_simp

section \<open>Closing a handler that accumulated nothing\<close>

text \<open>
  What holds of a handler as long as no call accumulated anything: it has no output,
  no finding and no structured error, and its final error, if any, is not a
  structured error.
\<close>

lemma run_call_nothing:
  assumes "\<not> accumulates c"
    and "\<not> has_output self" and "rule_matches self = []"
    and "semgrep_structured_errors self = []"
    and "\<forall>e. final_error self \<noteq> Some (SemgrepError e)"
  shows "fst (run_call X w c self) = []
     \<and> \<not> has_output (snd (run_call X w c self))
     \<and> rule_matches (snd (run_call X w c self)) = []
     \<and> semgrep_structured_errors (snd (run_call X w c self)) = []
     \<and> (\<forall>e. final_error (snd (run_call X w c self)) \<noteq> Some (SemgrepError e))
     \<and> (final_error (snd (run_call X w c self)) = None \<longleftrightarrow>
          final_error self = None \<and> (\<forall>ex. c \<noteq> Call_handle_unhandled_exception ex))"
proof (cases c)
  case (Call_handle_semgrep_errors errs)
  with assms show ?thesis by (simp add: handle_semgrep_errors_def)
next
  case (Call_handle_semgrep_error e)
  with assms show ?thesis by simp
next
  case (Call_handle_semgrep_core_output out)
  with assms show ?thesis by simp
next
  case (Call_handle_unhandled_exception ex)
  with assms show ?thesis
    by (cases ex) (simp_all add: handle_unhandled_exception_def)
qed

lemma run_calls_nothing:
  "list_all (\<lambda>c. \<not> accumulates c) cs \<Longrightarrow>
   \<not> has_output self \<Longrightarrow> rule_matches self = [] \<Longrightarrow>
   semgrep_structured_errors self = [] \<Longrightarrow>
   \<forall>e. final_error self \<noteq> Some (SemgrepError e) \<Longrightarrow>
   fst (run_calls X w cs self) = []
     \<and> \<not> has_output (snd (run_calls X w cs self))
     \<and> rule_matches (snd (run_calls X w cs self)) = []
     \<and> semgrep_structured_errors (snd (run_calls X w cs self)) = []
     \<and> (\<forall>e. final_error (snd (run_calls X w cs self)) \<noteq> Some (SemgrepError e))
     \<and> (final_error (snd (run_calls X w cs self)) = None \<longleftrightarrow>
          final_error self = None \<and> (\<forall>ex. Call_handle_unhandled_exception ex \<notin> set cs))"
proof (induction cs arbitrary: self)
  case Nil
  then show ?case by simp
next
  case (Cons c cs)
  from Cons.prems(1) have nc: "\<not> accumulates c" and ncs: "list_all (\<lambda>c. \<not> accumulates c) cs"
    by simp_all
  let ?s = "snd (run_call X w c self)"
  from run_call_nothing [OF nc Cons.prems(2-5), of X w]
  have e: "fst (run_call X w c self) = []"
    and 1: "\<not> has_output ?s" and 2: "rule_matches ?s = []"
    and 3: "semgrep_structured_errors ?s = []"
    and 4: "\<forall>e. final_error ?s \<noteq> Some (SemgrepError e)"
    and 5: "final_error ?s = None \<longleftrightarrow>
          final_error self = None \<and> (\<forall>ex. c \<noteq> Call_handle_unhandled_exception ex)"
    by blast+
  have r: "run_calls X w (c # cs) self
             = (fst (run_call X w c self) @ fst (run_calls X w cs ?s), snd (run_calls X w cs ?s))"
    by (simp add: split_beta)
  from Cons.IH [OF ncs 1 2 3 4] show ?case
    unfolding r using e 5 by auto
qed

lemma close_nothing:
  assumes "\<not> has_output self" and "rule_matches self = []"
    and "semgrep_structured_errors self = []"
    and "\<forall>e. final_error self \<noteq> Some (SemgrepError e)"
  shows "close K X w self = ([], final_error self, self)"
proof -
  have c: "close_final_error K self = (final_error self, None)"
    using assms by (auto simp: close_final_error_def)
  have f: "final_raise self (final_error self) None = ([], final_error self)"
  proof (cases "final_error self")
    case None
    then show ?thesis by (simp add: final_raise_def)
  next
    case (Some ex)
    with assms(4) show ?thesis by (cases ex) (simp_all add: final_raise_def)
  qed
  have "(if has_output self then close_output K X w self else ([], None, self)) = ([], None, self)"
    using assms(1) by simp
  from close_after_output [OF this] show ?thesis by (simp add: c f)
qed

text \<open>
  Claim C3, amended. When no call of the run accumulated a finding, a structured
  error or statistics, closing the handler calls no renderer, writes nothing and logs
  nothing, and it raises exactly the final error it recorded: nothing when no
  unhandled exception was recorded.
\<close>

theorem close_nothing_accumulated:
  assumes "list_all (\<lambda>c. \<not> accumulates c) cs"
  shows "fst (close K X w (snd (run_calls X w cs (new_OutputHandler st)))) = []
     \<and> fst (snd (close K X w (snd (run_calls X w cs (new_OutputHandler st)))))
         = final_error (snd (run_calls X w cs (new_OutputHandler st)))
     \<and> (fst (snd (close K X w (snd (run_calls X w cs (new_OutputHandler st))))) = None \<longleftrightarrow>
          (\<forall>ex. Call_handle_unhandled_exception ex \<notin> set cs))"
proof -
  let ?s = "snd (run_calls X w cs (new_OutputHandler st))"
  have i: "\<not> has_output (new_OutputHandler st)" "rule_matches (new_OutputHandler st) = []"
    "semgrep_structured_errors (new_OutputHandler st) = []"
    "\<forall>e. final_error (new_OutputHandler st) \<noteq> Some (SemgrepError e)"
    "final_error (new_OutputHandler st) = None"
    by (simp_all add: new_OutputHandler_def)
  from run_calls_nothing [OF assms i(1-4), of X w]
  have 1: "\<not> has_output ?s" and 2: "rule_matches ?s = []"
    and 3: "semgrep_structured_errors ?s = []"
    and 4: "\<forall>e. final_error ?s \<noteq> Some (SemgrepError e)"
    and 5: "final_error ?s = None \<longleftrightarrow> (\<forall>ex. Call_handle_unhandled_exception ex \<notin> set cs)"
    using i(5) by blast+
  from close_nothing [OF 1 2 3 4, of K X w] show ?thesis using 5 by simp
qed

text \<open>A handler that was handed an empty list of errors and nothing else.\<close>

theorem close_nothing_accumulated_witness:
  "list_all (\<lambda>c. \<not> accumulates c) [Call_handle_semgrep_errors []] \<and>
   fst (close K0 X0 w0 (snd (run_calls X0 w0 [Call_handle_semgrep_errors []]
          (new_OutputHandler settings0)))) = [] \<and>
   fst (snd (close K0 X0 w0 (snd (run_calls X0 w0 [Call_handle_semgrep_errors []]
          (new_OutputHandler settings0))))) = None"
proof -
  have a: "list_all (\<lambda>c. \<not> accumulates c) [Call_handle_semgrep_errors []]" by simp
  have n: "\<forall>ex. Call_handle_unhandled_exception ex \<notin> set [Call_handle_semgrep_errors []]"
    by simp
  from close_nothing_accumulated [OF a, of K0 X0 w0 settings0] n a show ?thesis by blast
qed

text \<open>
  No finding, no structured error and no statistics were accumulated, but an
  unhandled exception that is not a structured error was recorded: closing the handler
  raises it.
\<close>

theorem close_nothing_accumulated_counterexample:
  "list_all (\<lambda>c. \<not> accumulates c) [Call_handle_unhandled_exception (OtherException ''KeyError'')] \<and>
   rule_matches h_crashed = [] \<and> semgrep_structured_errors h_crashed = [] \<and>
   stats_line h_crashed = None \<and> has_output h_crashed = False \<and>
   close K0 X0 w0 h_crashed = ([], Some (OtherException ''KeyError''), h_crashed)"
proof -
  have h: "h_crashed = (new_OutputHandler settings0)\<lparr>final_error := Some (OtherException ''KeyError'')\<rparr>"
    by (simp add: h_crashed_def handle_unhandled_exception_def)
  have 1: "\<not> has_output h_crashed" "rule_matches h_crashed = []"
    "semgrep_structured_errors h_crashed = []" "stats_line h_crashed = None"
    "final_error h_crashed = Some (OtherException ''KeyError'')"
    by (simp_all add: h new_OutputHandler_def)
  have c: "close_final_error K0 h_crashed = (Some (OtherException ''KeyError''), None)"
    by (simp add: close_final_error_def 1)
  have f: "final_raise h_crashed (Some (OtherException ''KeyError'')) None
             = ([], Some (OtherException ''KeyError''))"
    by (simp add: final_raise_def)
  have "close K0 X0 w0 h_crashed = ([], Some (OtherException ''KeyError''), h_crashed)"
    unfolding close_def using 1(1) by (simp add: c f)
  with 1 show ?thesis by simp
qed

section \<open>Delivering the report\<close>








end
